(* ===== verification/Pipeline_Prelude.thy ===== *)
theory Pipeline_Prelude
  imports Main "HOL-Library.Sublist"
begin

text \<open>
  Shared vocabulary of the development. Every workflow class of the repository is modelled
  as a deterministic step function \<open>'s \<Rightarrow> 'e \<Rightarrow> ('s \<times> 'r) option\<close>: given the
  workflow state and one event delivered by the runtime (an activity result, a timer, a
  signal, an update or a query), it returns the next state and the reply to the caller, or
  \<open>None\<close> when the runtime cannot deliver that event in that state.  This theory holds
  the runs of such a function over event lists, its reachable states as an inductive
  predicate, the invariant and monotonicity rules that the component theories instantiate,
  and the named collections that carry their proofs.
\<close>

named_theorems wf_defs "segment definitions of the workflow models, unfolded by the step proofs"
named_theorems wf_simps "simplification rules shared by the workflow step proofs"

type_synonym seconds = nat

type_synonym ('s, 'e, 'r) step_fn = "'s \<Rightarrow> 'e \<Rightarrow> ('s \<times> 'r) option"

subsection \<open>Runs over event lists\<close>

fun run_events :: "('s, 'e, 'r) step_fn \<Rightarrow> 's \<Rightarrow> 'e list \<Rightarrow> 's option" where
  "run_events step s [] = Some s"
| "run_events step s (e # es) =
     (case step s e of None \<Rightarrow> None | Some (t, _) \<Rightarrow> run_events step t es)"

fun replies :: "('s, 'e, 'r) step_fn \<Rightarrow> 's \<Rightarrow> 'e list \<Rightarrow> 'r list option" where
  "replies step s [] = Some []"
| "replies step s (e # es) =
     (case step s e of None \<Rightarrow> None
      | Some (t, r) \<Rightarrow> map_option (Cons r) (replies step t es))"

inductive reach :: "('s, 'e, 'r) step_fn \<Rightarrow> 's \<Rightarrow> 's \<Rightarrow> bool" for step s0 where
  reach_start: "reach step s0 s0"
| reach_step: "reach step s0 s \<Longrightarrow> step s e = Some (t, r) \<Longrightarrow> reach step s0 t"

lemma run_events_append [simp]:
  "run_events step s (es @ fs) =
     (case run_events step s es of None \<Rightarrow> None | Some t \<Rightarrow> run_events step t fs)"
  by (induction es arbitrary: s) (auto split: option.splits)

lemma run_events_snoc:
  "run_events step s (es @ [e]) =
     (case run_events step s es of None \<Rightarrow> None
      | Some t \<Rightarrow> map_option fst (step t e))"
  by (auto split: option.splits)

lemma run_events_single [wf_simps]:
  "run_events step s [e] = map_option fst (step s e)"
  by (auto split: option.splits)

lemma reach_run_events:
  "run_events step s0 es = Some s \<Longrightarrow> reach step s0 s"
proof (induction es arbitrary: s rule: rev_induct)
  case Nil
  then show ?case by (simp add: reach_start)
next
  case (snoc e es)
  then obtain t r where "run_events step s0 es = Some t" "step t e = Some (s, r)"
    by (auto split: option.splits)
  with snoc.IH show ?case by (blast intro: reach_step)
qed

lemma run_events_reach:
  "reach step s0 s \<Longrightarrow> \<exists>es. run_events step s0 es = Some s"
proof (induction rule: reach.induct)
  case reach_start
  have "run_events step s0 [] = Some s0" by simp
  then show ?case by blast
next
  case (reach_step s e t r)
  then obtain es where "run_events step s0 es = Some s" by blast
  with reach_step.hyps(2) have "run_events step s0 (es @ [e]) = Some t"
    by simp
  then show ?case by blast
qed

theorem reach_iff_run_events:
  "reach step s0 s \<longleftrightarrow> (\<exists>es. run_events step s0 es = Some s)"
  by (auto intro: reach_run_events dest: run_events_reach)

lemma length_filter_take_le: "length (filter P (take n xs)) \<le> length (filter P xs)"
  by (induction xs arbitrary: n) (auto simp: take_Cons split: nat.splits)

text \<open>
  Lock-step simulation: two step functions that, from related states, accept the same
  events and reach related states, have related runs on every event list (both stop, or
  both end in related states).
\<close>

lemma run_events_lockstep:
  assumes "R s t"
    and "\<And>s t e. R s t \<Longrightarrow> rel_option (\<lambda>a b. R (fst a) (fst b)) (step1 s e) (step2 t e)"
  shows "rel_option R (run_events step1 s es) (run_events step2 t es)"
  using assms(1)
proof (induction es arbitrary: s t)
  case Nil
  then show ?case by simp
next
  case (Cons e es)
  from assms(2) [OF Cons.prems, of e] show ?case
    by (cases "step1 s e"; cases "step2 t e") (auto intro: Cons.IH)
qed

subsection \<open>Invariants and monotone quantities\<close>

text \<open>
  The invariant rule: a property of the start state that every delivered event keeps
  holds in every reachable state.  The step premise may use that the state is reachable.
\<close>

lemma reach_invariant:
  assumes "reach step s0 s"
    and "I s0"
    and "\<And>s e t r. reach step s0 s \<Longrightarrow> I s \<Longrightarrow> step s e = Some (t, r) \<Longrightarrow> I t"
  shows "I s"
  using assms(1) by (induction rule: reach.induct) (use assms(2,3) in blast)+

lemma reach_trans:
  assumes "reach step s0 s" and "reach step s t"
  shows "reach step s0 t"
  using assms(2,1) by (induction rule: reach.induct) (auto intro: reach_step)

text \<open>
  A quantity that no step from a reachable state decreases is monotone along every run
  from a reachable state: the form of the progress and history properties.
\<close>

lemma reach_monotone:
  assumes "reach step s0 s" and "reach step s t"
    and "\<And>s e t r. reach step s0 s \<Longrightarrow> step s e = Some (t, r) \<Longrightarrow> R s t"
    and "\<And>x. R x x"
    and "\<And>x y z. R x y \<Longrightarrow> R y z \<Longrightarrow> R x z"
  shows "R s t"
  using assms(2,1)
proof (induction rule: reach.induct)
  case reach_start
  show ?case by (rule assms(4))
next
  case (reach_step u e v r)
  then have "R s u" by blast
  moreover from reach_step have "reach step s0 u" by (blast intro: reach_trans)
  then have "R u v" using reach_step.hyps(2) by (rule assms(3))
  ultimately show ?case by (rule assms(5))
qed

text \<open>
  Refinement by an abstraction function: if every step from a reachable state is matched
  by a run of the abstract step function between the abstractions, every reachable
  state's abstraction is reachable from the abstraction of the start.
\<close>

lemma reach_refines:
  assumes "reach step s0 s" and "f s0 = x0"
    and "\<And>s e t r. reach step s0 s \<Longrightarrow> step s e = Some (t, r) \<Longrightarrow> reach astep (f s) (f t)"
  shows "reach astep x0 (f s)"
  using assms(1)
proof (induction rule: reach.induct)
  case reach_start
  show ?case using assms(2) by (simp add: reach.reach_start)
next
  case (reach_step s e t r)
  then show ?case by (blast intro: reach_trans assms(3))
qed

end
