(* ===== verification/Retry_Policy.thy ===== *)
theory Retry_Policy
  imports Pipeline_Prelude
begin

text \<open>
  The Retry/Backoff controller.  The repository configures it in one place: the
  \<open>poll\<close> activity of every workflow class is started with
  \<open>RetryPolicy(initial_interval=timedelta(seconds=2), backoff_coefficient=1)\<close>
  (\<open>src/DataPipelineWorkflowHappyPath.py\<close> line 89, and the same policy in the other two
  classes); every other activity runs under the runtime's default policy.  The retry
  loop itself is executed by the Temporal service, which is not part of the repository:
  its attempt loop and interval computation are modelled here from the documented
  semantics of \<open>temporalio.common.RetryPolicy\<close> (intervals
  \<open>initial * coefficient ^ (attempt - 1)\<close>, capped at \<open>maximum_interval\<close>,
  default \<open>100 * initial\<close>; \<open>maximum_attempts = 0\<close> means no cap).  Durations are whole
  seconds; the backoff coefficient, a float in Python, takes the integral values the
  code and the defaults use.
\<close>

record retry_policy =
  initial_interval :: seconds
  backoff_coefficient :: nat
  maximum_interval :: "seconds option"
  maximum_attempts :: nat

definition default_retry_policy :: retry_policy where
  "default_retry_policy =
     \<lparr>initial_interval = 1, backoff_coefficient = 2, maximum_interval = None,
      maximum_attempts = 0\<rparr>"

definition poll_retry_policy :: retry_policy where
  "poll_retry_policy = default_retry_policy\<lparr>initial_interval := 2, backoff_coefficient := 1\<rparr>"

text \<open>The wait after the failed attempt number \<open>n\<close> (attempts count from 1).\<close>

definition interval_cap :: "retry_policy \<Rightarrow> seconds" where
  "interval_cap rp =
     (case maximum_interval rp of None \<Rightarrow> 100 * initial_interval rp | Some m \<Rightarrow> m)"

definition retry_interval :: "retry_policy \<Rightarrow> nat \<Rightarrow> seconds" where
  "retry_interval rp n =
     min (initial_interval rp * backoff_coefficient rp ^ (n - 1)) (interval_cap rp)"

subsection \<open>The attempt loop\<close>

text \<open>
  One attempt of an activity ends in success, a retryable failure or a non-retryable one.
  An attempt that runs past its start-to-close budget, or stays silent longer than its
  heartbeat budget, is a retryable timeout (spec section 4.1: a stalled stage is surfaced
  to the retry layer).  The loop runs attempts \<open>n, n+1, \<dots>\<close> of an oracle \<open>att\<close>,
  waiting \<open>retry_interval\<close> between them, until one succeeds, one fails for good, or the
  attempt cap is reached; with no cap and only retryable failures it never returns, which
  \<^theory_text>\<open>partial_function (option)\<close> makes the value \<open>None\<close>.
\<close>

datatype attempt_result =
  AttemptSucceeded string | AttemptFailed string | AttemptNonRetryable string

datatype activity_outcome = ActCompleted string | ActFailed string

partial_function (option) retry_loop ::
  "retry_policy \<Rightarrow> (nat \<Rightarrow> attempt_result) \<Rightarrow> nat \<Rightarrow> seconds \<Rightarrow>
   (activity_outcome \<times> nat \<times> seconds) option" where
  "retry_loop rp att n waited =
     (case att n of
        AttemptSucceeded v \<Rightarrow> Some (ActCompleted v, n, waited)
      | AttemptNonRetryable e \<Rightarrow> Some (ActFailed e, n, waited)
      | AttemptFailed e \<Rightarrow>
          (if 0 < maximum_attempts rp \<and> maximum_attempts rp \<le> n
           then Some (ActFailed e, n, waited)
           else retry_loop rp att (Suc n) (waited + retry_interval rp n)))"

definition demo_attempts :: "nat \<Rightarrow> attempt_result" where
  "demo_attempts i = (if i < 3 then AttemptFailed ''job still running'' else AttemptSucceeded ''done'')"

subsection \<open>Properties of the retry controller\<close>

lemma retry_interval_poll [simp]: "retry_interval poll_retry_policy n = 2"
  by (simp add: retry_interval_def interval_cap_def poll_retry_policy_def default_retry_policy_def)

lemma poll_retry_policy_uncapped [simp]: "maximum_attempts poll_retry_policy = 0"
  by (simp add: poll_retry_policy_def default_retry_policy_def)

lemma retry_loop_skip_failures:
  assumes "\<And>i. n \<le> i \<Longrightarrow> i < n + d \<Longrightarrow> \<exists>e. att i = AttemptFailed e"
    and "maximum_attempts rp = 0"
  shows "retry_loop rp att n w = retry_loop rp att (n + d) (w + (\<Sum>i = n..<n + d. retry_interval rp i))"
  using assms(1)
proof (induction d arbitrary: n w)
  case 0
  then show ?case by simp
next
  case (Suc d)
  from Suc.prems [of n] obtain e where e: "att n = AttemptFailed e" by auto
  have "retry_loop rp att n w = retry_loop rp att (Suc n) (w + retry_interval rp n)"
    by (simp add: retry_loop.simps [of rp att n w] e assms(2))
  also have "\<dots> = retry_loop rp att (Suc n + d)
      (w + retry_interval rp n + (\<Sum>i = Suc n..<Suc n + d. retry_interval rp i))"
    by (rule Suc.IH) (use Suc.prems in auto)
  also have "w + retry_interval rp n + (\<Sum>i = Suc n..<Suc n + d. retry_interval rp i)
      = w + (\<Sum>i = n..<n + Suc d. retry_interval rp i)"
    by (simp add: sum.atLeast_Suc_lessThan)
  finally show ?case by simp
qed

lemma poll_retry_loop_value:
  assumes "\<And>i. n \<le> i \<Longrightarrow> i < k \<Longrightarrow> \<exists>e. att i = AttemptFailed e"
    and "n \<le> k" and "att k = AttemptSucceeded v"
  shows "retry_loop poll_retry_policy att n w = Some (ActCompleted v, k, w + 2 * (k - n))"
proof -
  have m: "maximum_attempts poll_retry_policy = 0"
    by (simp add: poll_retry_policy_def default_retry_policy_def)
  have "retry_loop poll_retry_policy att n w
      = retry_loop poll_retry_policy att (n + (k - n))
          (w + (\<Sum>i = n..<n + (k - n). retry_interval poll_retry_policy i))"
    by (rule retry_loop_skip_failures [OF _ m]) (use assms(1,2) in auto)
  also have "\<dots> = retry_loop poll_retry_policy att k (w + 2 * (k - n))"
    using assms(2) by (simp add: mult.commute)
  also have "\<dots> = Some (ActCompleted v, k, w + 2 * (k - n))"
    by (simp add: retry_loop.simps [of _ _ k] assms(3))
  finally show ?thesis .
qed

lemma retry_loop_returns_from:
  assumes "n \<le> i" and "\<forall>e. att i \<noteq> AttemptFailed e"
  shows "\<exists>r. retry_loop rp att n w = Some r"
  using assms
proof (induction "i - n" arbitrary: n w)
  case 0
  then have "i = n" by simp
  with 0 show ?case by (cases "att n") (simp_all add: retry_loop.simps [of rp att n w])
next
  case (Suc d)
  then have IH: "\<exists>r. retry_loop rp att (Suc n) w' = Some r" for w' by simp
  show ?case
    using IH [of "w + retry_interval rp n"]
    by (cases "att n") (auto simp: retry_loop.simps [of rp att n w])
qed

text \<open>Under a policy without an attempt cap (\<open>maximum_attempts = 0\<close>, the default), a run
  of retryable failures from attempt \<open>n\<close> on makes the loop diverge, and the loop can only
  hand a failure back to the workflow for a non-retryable error.\<close>

lemma retry_loop_uncapped_none_from:
  assumes cap: "maximum_attempts rp = 0"
    and fails: "\<And>i. n \<le> i \<Longrightarrow> \<exists>e. att i = AttemptFailed e"
  shows "retry_loop rp att n w = None"
proof (rule ccontr)
  assume "retry_loop rp att n w \<noteq> None"
  then obtain y where y: "retry_loop rp att n w = Some y" by auto
  have "rp' = rp \<longrightarrow> att' = att \<longrightarrow> n \<le> m \<longrightarrow> False"
    if ret: "retry_loop rp' att' m w = Some y" for rp' att' m w y
  proof (rule retry_loop.raw_induct
      [where P = "\<lambda>rp' att' m w y. rp' = rp \<longrightarrow> att' = att \<longrightarrow> n \<le> m \<longrightarrow> False",
       OF _ ret])
    fix f rp' att' m w y
    assume IH: "\<And>rp' att' m w y. f rp' att' m w = Some y \<Longrightarrow>
        rp' = rp \<longrightarrow> att' = att \<longrightarrow> n \<le> m \<longrightarrow> False"
      and eq: "(case att' m of
          AttemptSucceeded v \<Rightarrow> Some (ActCompleted v, m, w)
        | AttemptNonRetryable e \<Rightarrow> Some (ActFailed e, m, w)
        | AttemptFailed e \<Rightarrow>
            if 0 < maximum_attempts rp' \<and> maximum_attempts rp' \<le> m
            then Some (ActFailed e, m, w)
            else f rp' att' (Suc m) (w + retry_interval rp' m)) = Some y"
    show "rp' = rp \<longrightarrow> att' = att \<longrightarrow> n \<le> m \<longrightarrow> False"
    proof (intro impI)
      assume r: "rp' = rp" and a: "att' = att" and nm: "n \<le> m"
      from fails [OF nm] obtain e where "att m = AttemptFailed e" by auto
      with eq r a cap have "f rp' att' (Suc m) (w + retry_interval rp' m) = Some y"
        by simp
      from IH [OF this] r a nm show False by simp
    qed
  qed
  from this [OF y] show False by simp
qed

lemma retry_loop_uncapped_terminates_iff:
  assumes "maximum_attempts rp = 0"
  shows "(\<exists>r. retry_loop rp att n w = Some r) \<longleftrightarrow> (\<exists>i. n \<le> i \<and> (\<forall>e. att i \<noteq> AttemptFailed e))"
proof
  assume "\<exists>r. retry_loop rp att n w = Some r"
  then show "\<exists>i. n \<le> i \<and> (\<forall>e. att i \<noteq> AttemptFailed e)"
  proof (rule contrapos_pp)
    assume "\<not> (\<exists>i. n \<le> i \<and> (\<forall>e. att i \<noteq> AttemptFailed e))"
    then have "\<And>i. n \<le> i \<Longrightarrow> \<exists>e. att i = AttemptFailed e" by blast
    with assms have "retry_loop rp att n w = None" by (rule retry_loop_uncapped_none_from)
    then show "\<not> (\<exists>r. retry_loop rp att n w = Some r)" by simp
  qed
next
  assume "\<exists>i. n \<le> i \<and> (\<forall>e. att i \<noteq> AttemptFailed e)"
  then show "\<exists>r. retry_loop rp att n w = Some r"
    using retry_loop_returns_from by blast
qed

lemma retry_loop_uncapped_failure:
  assumes cap: "maximum_attempts rp = 0"
    and ret: "retry_loop rp att n w = Some (ActFailed e, k, w')"
  shows "att k = AttemptNonRetryable e"
proof -
  have "rp' = rp \<longrightarrow> (\<forall>e k w'. y = (ActFailed e, k, w') \<longrightarrow> att' k = AttemptNonRetryable e)"
    if "retry_loop rp' att' m v = Some y" for rp' att' m v y
  proof (rule retry_loop.raw_induct
      [where P = "\<lambda>rp' att' m v y. rp' = rp
          \<longrightarrow> (\<forall>e k w'. y = (ActFailed e, k, w') \<longrightarrow> att' k = AttemptNonRetryable e)",
       OF _ that])
    fix f rp' att' m v y
    assume IH: "\<And>rp' att' m v y. f rp' att' m v = Some y \<Longrightarrow> rp' = rp
          \<longrightarrow> (\<forall>e k w'. y = (ActFailed e, k, w') \<longrightarrow> att' k = AttemptNonRetryable e)"
      and eq: "(case att' m of
          AttemptSucceeded x \<Rightarrow> Some (ActCompleted x, m, v)
        | AttemptNonRetryable e \<Rightarrow> Some (ActFailed e, m, v)
        | AttemptFailed e \<Rightarrow>
            if 0 < maximum_attempts rp' \<and> maximum_attempts rp' \<le> m
            then Some (ActFailed e, m, v)
            else f rp' att' (Suc m) (v + retry_interval rp' m)) = Some y"
    show "rp' = rp
          \<longrightarrow> (\<forall>e k w'. y = (ActFailed e, k, w') \<longrightarrow> att' k = AttemptNonRetryable e)"
    proof (intro impI allI)
      fix e k w'
      assume r: "rp' = rp" and y: "y = (ActFailed e, k, w')"
      show "att' k = AttemptNonRetryable e"
      proof (cases "att' m")
        case (AttemptFailed x)
        with eq r cap have "f rp' att' (Suc m) (v + retry_interval rp' m) = Some y" by simp
        from IH [OF this] r y show ?thesis by blast
      qed (use eq y in auto)
    qed
  qed
  from this [OF ret] show ?thesis by simp
qed

text \<open>C20: Under the polling policy, if attempts n to k-1 fail retryably and attempt k succeeds, the loop returns the success of attempt k after waiting exactly 2 seconds per failed attempt, 2 (k - n) seconds in all.\<close>

theorem poll_retry_first_success:
  assumes "\<And>i. n \<le> i \<Longrightarrow> i < k \<Longrightarrow> \<exists>e. att i = AttemptFailed e"
    and "n \<le> k" and "att k = AttemptSucceeded v"
  shows "retry_loop poll_retry_policy att n w = Some (ActCompleted v, k, w + 2 * (k - n))
    \<and> (\<forall>i. n \<le> i \<and> i < k \<longrightarrow> retry_interval poll_retry_policy i = 2)"
  using poll_retry_loop_value [of n k att v w] assms by simp

text \<open>C21: Under the polling policy the retry loop returns exactly when some attempt from
  the current one on is not a retryable failure (a success or a non-retryable error): the
  loop terminates on every such attempt sequence and on no other.\<close>

theorem poll_retry_terminates_iff:
  "(\<exists>r. retry_loop poll_retry_policy att n w = Some r)
   \<longleftrightarrow> (\<exists>i. n \<le> i \<and> (\<forall>e. att i \<noteq> AttemptFailed e))"
  by (rule retry_loop_uncapped_terminates_iff) simp

text \<open>Under a policy with a positive maximum_attempts (none of the policies of the
  repository has one) the retry loop always returns, whatever the attempts do.\<close>

lemma bounded_retry_terminates:
  assumes "0 < maximum_attempts rp"
  shows "\<exists>r. retry_loop rp att n w = Some r"
proof (induction "maximum_attempts rp - n" arbitrary: n w)
  case 0
  then have "maximum_attempts rp \<le> n" by simp
  with assms show ?case
    by (cases "att n") (simp_all add: retry_loop.simps [of rp att n w])
next
  case (Suc d)
  then have IH: "\<exists>r. retry_loop rp att (Suc n) w' = Some r" for w'
    by simp
  show ?case
    using IH [of "w + retry_interval rp n"]
    by (cases "att n") (auto simp: retry_loop.simps [of rp att n w])
qed

subsection \<open>Witnesses\<close>

theorem poll_retry_first_success_witness:
  "retry_loop poll_retry_policy demo_attempts 1 0 = Some (ActCompleted ''done'', 3, 4)"
proof -
  have f: "\<And>i. 1 \<le> i \<Longrightarrow> i < 3 \<Longrightarrow> \<exists>e. demo_attempts i = AttemptFailed e"
    by (simp add: demo_attempts_def)
  have s: "demo_attempts 3 = AttemptSucceeded ''done''" by (simp add: demo_attempts_def)
  have "retry_loop poll_retry_policy demo_attempts 1 0
      = Some (ActCompleted ''done'', 3, 0 + 2 * (3 - 1))
    \<and> (\<forall>i. 1 \<le> i \<and> i < 3 \<longrightarrow> retry_interval poll_retry_policy i = 2)"
    by (rule poll_retry_first_success [where k = 3]) (use f s in auto)
  then show ?thesis by simp
qed

lemma bounded_retry_terminates_example:
  "\<exists>r. retry_loop (poll_retry_policy\<lparr>maximum_attempts := 5\<rparr>)
         (\<lambda>i. AttemptFailed ''job still running'') 1 0 = Some r"
  by (rule bounded_retry_terminates) simp

theorem poll_retry_terminates_iff_witness:
  "(\<exists>r. retry_loop poll_retry_policy demo_attempts 1 0 = Some r)
   \<and> retry_loop poll_retry_policy (\<lambda>i. AttemptFailed ''job still running'') 1 0 = None"
proof
  show "\<exists>r. retry_loop poll_retry_policy demo_attempts 1 0 = Some r"
    using poll_retry_terminates_iff [of demo_attempts 1 0] by (auto simp: demo_attempts_def)
  have "\<not> (\<exists>r. retry_loop poll_retry_policy (\<lambda>i. AttemptFailed ''job still running'') 1 0 = Some r)"
    using poll_retry_terminates_iff [of "\<lambda>i. AttemptFailed ''job still running''" 1 0] by simp
  then show "retry_loop poll_retry_policy (\<lambda>i. AttemptFailed ''job still running'') 1 0 = None"
    by (metis not_None_eq)
qed

end
