(* ===== verification/Temporal_Runtime.thy ===== *)
theory Temporal_Runtime
  imports Pipeline_Prelude Retry_Policy
begin

text \<open>
  The interface between the workflow classes of the repository and the durable-execution
  runtime (the Temporal Python SDK and service, not part of the repository).  A workflow
  \<open>run\<close> coroutine executes deterministically between two \<open>await\<close>s; at each
  \<open>await\<close> it hands the runtime a command (schedule an activity, start a timer, upsert a
  search attribute, complete or fail the workflow) and is resumed by an event (the
  activity's result or final failure, the timer firing).  Signals, updates and queries are
  events too: they run a handler of the class against the same state.  This theory holds
  the types both sides agree on: the pipeline input (\<open>DataPipelineParams\<close> of
  \<open>dataobjects.py\<close>, which is not among the sources), activity calls with their options,
  the commands, the events, the replies, the outcome of a run and the per-instance state
  record, together with the helpers that model the SDK calls the classes make
  (\<open>workflow.execute_activity\<close>, \<open>asyncio.sleep\<close>, \<open>workflow.wait_condition\<close>,
  \<open>workflow.upsert_search_attributes\<close>, \<open>return\<close> and \<open>raise\<close>).
\<close>

record params =
  input_filename :: string
  validation :: string

datatype pyval = PyBool bool | PyStr string

datatype activity =
  Get_available_task_queue | Validate | Extract | Transform | Load | Poll

datatype arg = ArgParams params | ArgStr string

record act_call =
  call_activity :: activity
  call_args :: "arg list"
  call_task_queue :: "string option"
  start_to_close :: seconds
  heartbeat_timeout :: "seconds option"
  call_retry_policy :: "retry_policy option"

text \<open>
  \<open>ApplicationError msg cause\<close> is an \<open>ApplicationError\<close> raised by workflow code, with the
  message of the exception it was raised \<open>from\<close>; \<open>ActivityError\<close> is an activity that
  failed for good (retries exhausted or a non-retryable error), which the SDK raises at
  the \<open>await\<close>.
\<close>

datatype wf_failure =
  ApplicationError string "string option"
| ActivityError activity string

text \<open>
  \<open>TaskFailed\<close> is an exception that is not a Temporal failure (the \<open>Exception\<close> of
  the recoverable-bug scenario): the SDK fails the workflow task, not the workflow, and the
  runtime keeps retrying the task by replaying the history.
\<close>

datatype outcome = Running | Returned string | Failed wf_failure | TaskFailed string

datatype command =
  ScheduleActivity act_call
| StartTimer seconds
| UpsertSearchAttributes string
| CompleteWorkflow string
| FailWorkflow wf_failure

text \<open>The \<open>await\<close> a run is suspended at; \<open>Finished\<close> after \<open>return\<close>.\<close>

datatype pc =
  AwaitTaskQueue | AwaitSleep | AwaitValidate | AwaitExtract | AwaitTransform
| AwaitLoad | AwaitLoadAgain | AwaitSignal | AwaitUpdate | AwaitPoll | Finished

datatype event =
  ActivityCompleted pyval
| ActivityFailed string
| TimerFired
| Signal string string
| Update string string
| Query string

datatype reply = NoReply | QueryResult int | UpdateResult string | Rejected string

text \<open>
  The state of one workflow instance: the instance attributes of the class
  (\<open>_progress\<close>, and in the scenarios class the two confirmation flags), the locals of
  \<open>run\<close> that live across an \<open>await\<close> (\<open>input\<close>, \<open>unique_worker_task_queue\<close>), where
  \<open>run\<close> is suspended, the commands sent so far (the history the runtime replays) and
  how the run ended.
\<close>

record wf_state =
  pc :: pc
  progress :: int
  load_complete_signal :: bool
  load_complete_update :: bool
  wf_input :: params
  task_queue :: "string option"
  commands :: "command list"
  outcome :: outcome

subsection \<open>The SDK calls the workflow classes make\<close>

definition emit :: "command \<Rightarrow> wf_state \<Rightarrow> wf_state" where
  "emit c s = s\<lparr>commands := commands s @ [c]\<rparr>"

definition execute_activity ::
  "activity \<Rightarrow> arg list \<Rightarrow> string option \<Rightarrow> seconds \<Rightarrow> seconds option \<Rightarrow>
   retry_policy option \<Rightarrow> pc \<Rightarrow> wf_state \<Rightarrow> wf_state" where
  "execute_activity a args tq stc hb rp k s =
     (emit (ScheduleActivity
        \<lparr>call_activity = a, call_args = args, call_task_queue = tq, start_to_close = stc,
         heartbeat_timeout = hb, call_retry_policy = rp\<rparr>) s)\<lparr>pc := k\<rparr>"

text \<open>The policy the service runs an activity's attempts under: the call's own
  \<open>retry_policy\<close>, or the service's default when the call passes none.\<close>

definition effective_retry_policy :: "act_call \<Rightarrow> retry_policy" where
  "effective_retry_policy c =
     (case call_retry_policy c of None \<Rightarrow> default_retry_policy | Some rp \<Rightarrow> rp)"

definition sleep :: "seconds \<Rightarrow> pc \<Rightarrow> wf_state \<Rightarrow> wf_state" where
  "sleep d k s = (emit (StartTimer d) s)\<lparr>pc := k\<rparr>"

text \<open>
  \<open>wait_condition(fn, timeout)\<close>: when the condition already holds the coroutine goes
  on at once (the timer it would start is cancelled before it is ever sent); otherwise
  it starts the timeout timer and suspends.
\<close>

definition wait_condition ::
  "bool \<Rightarrow> seconds \<Rightarrow> pc \<Rightarrow> (wf_state \<Rightarrow> wf_state) \<Rightarrow> wf_state \<Rightarrow> wf_state" where
  "wait_condition c timeout k cont s = (if c then cont s else sleep timeout k s)"

definition upsert_search_attributes :: "string \<Rightarrow> wf_state \<Rightarrow> wf_state" where
  "upsert_search_attributes v s = emit (UpsertSearchAttributes v) s"

definition wf_return :: "string \<Rightarrow> wf_state \<Rightarrow> wf_state" where
  "wf_return r s = (emit (CompleteWorkflow r) s)\<lparr>pc := Finished, outcome := Returned r\<rparr>"

definition wf_raise :: "wf_failure \<Rightarrow> wf_state \<Rightarrow> wf_state" where
  "wf_raise e s = (emit (FailWorkflow e) s)\<lparr>outcome := Failed e\<rparr>"

definition task_failure :: "string \<Rightarrow> wf_state \<Rightarrow> wf_state" where
  "task_failure m s = s\<lparr>outcome := TaskFailed m\<rparr>"

definition wf_closed :: "wf_state \<Rightarrow> bool" where
  "wf_closed s = (case outcome s of Returned _ \<Rightarrow> True | Failed _ \<Rightarrow> True | _ \<Rightarrow> False)"

text \<open>The \<open>progress\<close> query handler, the same in all three classes.\<close>

definition progress_query :: "wf_state \<Rightarrow> string \<Rightarrow> reply" where
  "progress_query s name =
     (if name = ''progress'' then QueryResult (progress s) else Rejected ''unknown query'')"

text \<open>The activity a run suspended at \<open>k\<close> is waiting for, if any.\<close>

fun pending_activity :: "pc \<Rightarrow> activity option" where
  "pending_activity AwaitTaskQueue = Some Get_available_task_queue"
| "pending_activity AwaitValidate = Some Validate"
| "pending_activity AwaitExtract = Some Extract"
| "pending_activity AwaitTransform = Some Transform"
| "pending_activity AwaitLoad = Some Load"
| "pending_activity AwaitLoadAgain = Some Load"
| "pending_activity AwaitPoll = Some Poll"
| "pending_activity _ = None"

subsection \<open>Views of the command history\<close>

fun activity_calls :: "command list \<Rightarrow> act_call list" where
  "activity_calls [] = []"
| "activity_calls (ScheduleActivity c # cs) = c # activity_calls cs"
| "activity_calls (_ # cs) = activity_calls cs"

fun search_attribute_values :: "command list \<Rightarrow> string list" where
  "search_attribute_values [] = []"
| "search_attribute_values (UpsertSearchAttributes v # cs) = v # search_attribute_values cs"
| "search_attribute_values (_ # cs) = search_attribute_values cs"

lemma activity_calls_append [simp]:
  "activity_calls (xs @ ys) = activity_calls xs @ activity_calls ys"
  by (induction xs rule: activity_calls.induct) auto

lemma search_attribute_values_append [simp]:
  "search_attribute_values (xs @ ys) = search_attribute_values xs @ search_attribute_values ys"
  by (induction xs rule: search_attribute_values.induct) auto

lemmas runtime_defs [wf_defs] =
  emit_def execute_activity_def sleep_def wait_condition_def upsert_search_attributes_def
  wf_return_def wf_raise_def task_failure_def wf_closed_def progress_query_def

end
