(* ===== verification/Pipeline_Spec.thy ===== *)
theory Pipeline_Spec
  imports Temporal_Runtime
begin

text \<open>
  What the pipeline promises, stated once for the three workflow classes: the progress
  checkpoint that belongs to each \<open>await\<close> of \<open>run\<close> (spec section 3: 0, 10, 20, 40,
  60, 80, 100), how many pipeline stages lie behind each \<open>await\<close>, the search-attribute
  values of the visibility scenario in their order, and the shape of the activity calls
  the sequencer issues (time budgets of 10, 300 and 3000 seconds, idle budget 20 seconds,
  the polling retry policy).  The component theories prove that their step functions
  produce exactly these values.
\<close>

definition checkpoints :: "int set" where
  "checkpoints = {0, 10, 20, 40, 60, 80, 100}"

fun checkpoint :: "pc \<Rightarrow> int" where
  "checkpoint AwaitTaskQueue = 0"
| "checkpoint AwaitSleep = 10"
| "checkpoint AwaitValidate = 10"
| "checkpoint AwaitExtract = 20"
| "checkpoint AwaitTransform = 40"
| "checkpoint AwaitLoad = 60"
| "checkpoint AwaitLoadAgain = 60"
| "checkpoint AwaitSignal = 80"
| "checkpoint AwaitUpdate = 80"
| "checkpoint AwaitPoll = 80"
| "checkpoint Finished = 100"

text \<open>How many of validation, extract, transform, load and completion have begun.\<close>

fun stage_index :: "pc \<Rightarrow> nat" where
  "stage_index AwaitTaskQueue = 0"
| "stage_index AwaitSleep = 0"
| "stage_index AwaitValidate = 1"
| "stage_index AwaitExtract = 2"
| "stage_index AwaitTransform = 3"
| "stage_index AwaitLoad = 4"
| "stage_index AwaitLoadAgain = 4"
| "stage_index AwaitSignal = 4"
| "stage_index AwaitUpdate = 4"
| "stage_index AwaitPoll = 4"
| "stage_index Finished = 5"

definition visibility_steps :: "string list" where
  "visibility_steps = [''validation'', ''extract'', ''transform'', ''load'', ''complete'']"

definition discovery_call :: act_call where
  "discovery_call =
     \<lparr>call_activity = Get_available_task_queue, call_args = [], call_task_queue = None,
      start_to_close = 10, heartbeat_timeout = None, call_retry_policy = None\<rparr>"

definition stage_call :: "activity \<Rightarrow> params \<Rightarrow> string option \<Rightarrow> act_call" where
  "stage_call a p tq =
     \<lparr>call_activity = a, call_args = [ArgParams p], call_task_queue = tq,
      start_to_close = 300, heartbeat_timeout = Some 20, call_retry_policy = None\<rparr>"

definition poll_call :: "arg list \<Rightarrow> string option \<Rightarrow> act_call" where
  "poll_call args tq =
     \<lparr>call_activity = Poll, call_args = args, call_task_queue = tq,
      start_to_close = 3000, heartbeat_timeout = Some 20,
      call_retry_policy = Some poll_retry_policy\<rparr>"

text \<open>A sample pipeline input, used by the witnesses.\<close>

definition demo_params :: params where
  "demo_params = \<lparr>input_filename = ''orders.csv'', validation = ''green''\<rparr>"

lemma checkpoint_in_checkpoints [simp]: "checkpoint k \<in> checkpoints"
  by (cases k) (simp_all add: checkpoints_def)

lemma checkpoint_mono_stage:
  "stage_index k < stage_index k' \<Longrightarrow> checkpoint k \<le> checkpoint k'"
  by (cases k; cases k') simp_all

end
