(* ===== verification/Workflow_Scenarios.thy ===== *)
theory Workflow_Scenarios
  imports Pipeline_Spec
begin

text \<open>
  \<open>src/DataPipelineWorkflowScenarios.py\<close>: the dynamic workflow class
  \<open>DataPipelineWorkflowScenarios\<close>.  It registers for every workflow type name and selects
  its behaviour by comparing \<open>workflow.info().workflow_type\<close> with six class constants.
  The type name \<open>wt\<close> is a parameter of every definition here: it is fixed when the
  instance starts and no code changes it.  The body of \<open>run\<close> is cut at its
  \<open>await\<close>s into one definition per segment, in source order; \<open>scn_step\<close> dispatches
  an event to the segment that resumes at the current \<open>await\<close>, or to the signal,
  update or query handler.
\<close>

subsection \<open>Scenario selector: the class constants (lines 16--21)\<close>

definition BUG :: string where "BUG = ''DataPipelineRecoverableFailure''"
definition FAILURE :: string where "FAILURE = ''DataPipelineNonRecoverableFailure''"
definition SIGNAL :: string where "SIGNAL = ''DataPipelineHumanInLoopSignal''"
definition UPDATE :: string where "UPDATE = ''DataPipelineHumanInLoopUpdate''"
definition VISIBILITY :: string where "VISIBILITY = ''DataPipelineAdvancedVisibility''"
definition IDEMPOTENCY :: string where "IDEMPOTENCY = ''DataPipelineIdempotency''"

subsection \<open>The segments of \<open>run\<close>\<close>

text \<open>\<open>__init__\<close> (lines 23--26), with the decoded input of line 30.\<close>

definition scn_init :: "params \<Rightarrow> wf_state" where
  "scn_init p =
     \<lparr>pc = AwaitTaskQueue, progress = 0, load_complete_signal = False,
      load_complete_update = False, wf_input = p, task_queue = None, commands = [],
      outcome = Running\<rparr>"

text \<open>Lines 28--38: the run starts by asking for a worker's task queue.\<close>

definition scn_start :: "params \<Rightarrow> wf_state" where
  "scn_start p =
     execute_activity Get_available_task_queue [] None 10 None None AwaitTaskQueue (scn_init p)"

text \<open>Lines 39--45: pin the task queue, progress 10, sleep 2 seconds.\<close>

definition scn_after_task_queue :: "string \<Rightarrow> wf_state \<Rightarrow> wf_state" where
  "scn_after_task_queue q s = sleep 2 AwaitSleep (s\<lparr>task_queue := Some q, progress := 10\<rparr>)"

text \<open>Lines 47--59: visibility tag, the failure scenario's override, then validate.\<close>

definition scn_after_sleep :: "string \<Rightarrow> wf_state \<Rightarrow> wf_state" where
  "scn_after_sleep wt s =
     (let s1 = (if VISIBILITY = wt then upsert_search_attributes ''validation'' s else s);
          s2 = (if FAILURE = wt then s1\<lparr>wf_input := (wf_input s1)\<lparr>validation := ''blue''\<rparr>\<rparr>
                else s1)
      in execute_activity Validate [ArgParams (wf_input s2)] None 300 (Some 20) None
           AwaitValidate s2)"

text \<open>Lines 61--78: a rejected validation raises; otherwise progress 20 and extract.\<close>

definition scn_after_validate :: "string \<Rightarrow> pyval \<Rightarrow> wf_state \<Rightarrow> wf_state" where
  "scn_after_validate wt v s =
     (if v = PyBool False
      then wf_raise (ApplicationError ''Workflow failed due to validation''
                      (Some ''Validation Failed'')) s
      else
        (let s1 = s\<lparr>progress := 20\<rparr>;
             s2 = (if VISIBILITY = wt then upsert_search_attributes ''extract'' s1 else s1)
         in execute_activity Extract [ArgParams (wf_input s2)] (task_queue s2) 300 (Some 20)
              None AwaitExtract s2))"

text \<open>Lines 79--94: progress 40, then transform.\<close>

definition scn_after_extract :: "string \<Rightarrow> wf_state \<Rightarrow> wf_state" where
  "scn_after_extract wt s =
     (let s1 = s\<lparr>progress := 40\<rparr>;
          s2 = (if VISIBILITY = wt then upsert_search_attributes ''transform'' s1 else s1)
      in execute_activity Transform [ArgParams (wf_input s2)] (task_queue s2) 300 (Some 20)
           None AwaitTransform s2)"

text \<open>Lines 95--115: the bug scenario raises a plain \<open>Exception\<close>; otherwise progress 60
  and load.\<close>

definition scn_after_transform :: "string \<Rightarrow> wf_state \<Rightarrow> wf_state" where
  "scn_after_transform wt s =
     (if BUG = wt then task_failure ''Workflow bug!'' s
      else
        (let s1 = s\<lparr>progress := 60\<rparr>;
             s2 = (if VISIBILITY = wt then upsert_search_attributes ''load'' s1 else s1)
         in execute_activity Load [ArgParams (wf_input s2)] (task_queue s2) 300 (Some 20)
              None AwaitLoad s2))"

text \<open>Lines 163--170: the last visibility tag, progress 100, the result string.\<close>

definition scn_finish :: "string \<Rightarrow> wf_state \<Rightarrow> wf_state" where
  "scn_finish wt s =
     (let s1 = (if VISIBILITY = wt then upsert_search_attributes ''complete'' s else s)
      in wf_return (''Successfully processed: '' @ input_filename (wf_input s1) @ ''!'')
           (s1\<lparr>progress := 100\<rparr>))"

text \<open>Lines 130--161: progress 80, then the human-in-the-loop gate (a 60 second
  \<open>wait_condition\<close> on the signal or the update flag) or the polling activity.\<close>

definition scn_gate :: "string \<Rightarrow> wf_state \<Rightarrow> wf_state" where
  "scn_gate wt s =
     (let s1 = s\<lparr>progress := 80\<rparr>
      in if SIGNAL = wt
         then wait_condition (load_complete_signal s1) 60 AwaitSignal (scn_finish wt) s1
         else if UPDATE = wt
         then wait_condition (load_complete_update s1) 60 AwaitUpdate (scn_finish wt) s1
         else execute_activity Poll [ArgParams (wf_input s1), ArgStr wt] (task_queue s1) 3000
                (Some 20) (Some poll_retry_policy) AwaitPoll s1)"

text \<open>Lines 116--128: the idempotency scenario runs load a second time.\<close>

definition scn_after_load :: "string \<Rightarrow> wf_state \<Rightarrow> wf_state" where
  "scn_after_load wt s =
     (if IDEMPOTENCY = wt
      then execute_activity Load [ArgParams (wf_input s)] (task_queue s) 300 (Some 20) None
             AwaitLoadAgain s
      else scn_gate wt s)"

text \<open>Lines 138--140 and 147--149: the gate's timeout becomes an \<open>ApplicationError\<close>.\<close>

definition scn_gate_timeout :: "wf_state \<Rightarrow> wf_state" where
  "scn_gate_timeout s =
     wf_raise (ApplicationError ''Load did not complete before timeout'' None) s"

subsection \<open>Handlers\<close>

text \<open>Lines 172--174 and 176--179.\<close>

definition scn_load_complete_signal :: "wf_state \<Rightarrow> wf_state" where
  "scn_load_complete_signal s = s\<lparr>load_complete_signal := True\<rparr>"

definition scn_load_complete_update :: "wf_state \<Rightarrow> wf_state \<times> string" where
  "scn_load_complete_update s =
     (s\<lparr>load_complete_update := True\<rparr>, ''Workflow update successful'')"

text \<open>After a handler ran, a pending \<open>wait_condition\<close> whose flag now holds resumes
  the run (lines 137 and 146, then line 163).\<close>

definition scn_wake :: "string \<Rightarrow> wf_state \<Rightarrow> wf_state" where
  "scn_wake wt s =
     (if pc s = AwaitSignal \<and> load_complete_signal s \<and> outcome s = Running then scn_finish wt s
      else if pc s = AwaitUpdate \<and> load_complete_update s \<and> outcome s = Running
      then scn_finish wt s
      else s)"

subsection \<open>The instance as a step function\<close>

fun scn_step :: "string \<Rightarrow> (wf_state, event, reply) step_fn" where
  "scn_step wt s (Query n) = Some (s, progress_query s n)"
| "scn_step wt s (Signal n payload) =
     (if wf_closed s then None
      else if n = ''load_complete_signal''
      then Some (scn_wake wt (scn_load_complete_signal s), NoReply)
      else Some (s, NoReply))"
| "scn_step wt s (Update n payload) =
     (if wf_closed s then None
      else if n = ''load_complete_update''
      then Some (scn_wake wt (fst (scn_load_complete_update s)),
                 UpdateResult (snd (scn_load_complete_update s)))
      else Some (s, Rejected ''unknown update''))"
| "scn_step wt s (ActivityCompleted v) =
     (if outcome s \<noteq> Running then None
      else case pc s of
        AwaitTaskQueue \<Rightarrow>
          (case v of PyStr q \<Rightarrow> Some (scn_after_task_queue q s, NoReply) | _ \<Rightarrow> None)
      | AwaitValidate \<Rightarrow> Some (scn_after_validate wt v s, NoReply)
      | AwaitExtract \<Rightarrow> Some (scn_after_extract wt s, NoReply)
      | AwaitTransform \<Rightarrow> Some (scn_after_transform wt s, NoReply)
      | AwaitLoad \<Rightarrow> Some (scn_after_load wt s, NoReply)
      | AwaitLoadAgain \<Rightarrow> Some (scn_gate wt s, NoReply)
      | AwaitPoll \<Rightarrow> Some (scn_finish wt s, NoReply)
      | _ \<Rightarrow> None)"
| "scn_step wt s (ActivityFailed m) =
     (if outcome s \<noteq> Running then None
      else case pending_activity (pc s) of
        Some a \<Rightarrow> Some (wf_raise (ActivityError a m) s, NoReply)
      | None \<Rightarrow> None)"
| "scn_step wt s TimerFired =
     (if outcome s \<noteq> Running then None
      else case pc s of
        AwaitSleep \<Rightarrow> Some (scn_after_sleep wt s, NoReply)
      | AwaitSignal \<Rightarrow> Some (scn_gate_timeout s, NoReply)
      | AwaitUpdate \<Rightarrow> Some (scn_gate_timeout s, NoReply)
      | _ \<Rightarrow> None)"

subsection \<open>The run's contract: the activity plan and the invariant\<close>

text \<open>
  What a run of the scenarios class may have done at each \<open>await\<close>.  \<open>scn_plan\<close> is the
  flat sequence of activity calls of a complete run of variant \<open>wt\<close> (the base pipeline
  with the idempotency and human-in-the-loop deltas of spec section 4.4);
  \<open>scn_calls_made\<close> says how much of it has been issued at each \<open>await\<close>;
  \<open>scn_inv\<close> ties progress, search attributes, issued calls, input, task queue, flags and
  outcome to the \<open>await\<close> the run is suspended at.
\<close>

definition scn_tag :: "string \<Rightarrow> string \<Rightarrow> command list" where
  "scn_tag wt v = (if VISIBILITY = wt then [UpsertSearchAttributes v] else [])"

definition scn_effective_input :: "string \<Rightarrow> params \<Rightarrow> params" where
  "scn_effective_input wt p = (if FAILURE = wt then p\<lparr>validation := ''blue''\<rparr> else p)"

definition scn_message :: "params \<Rightarrow> string" where
  "scn_message p = ''Successfully processed: '' @ input_filename p @ ''!''"

definition scn_plan :: "string \<Rightarrow> params \<Rightarrow> string option \<Rightarrow> act_call list" where
  "scn_plan wt p tq =
     [discovery_call, stage_call Validate p None, stage_call Extract p tq,
      stage_call Transform p tq, stage_call Load p tq]
     @ (if IDEMPOTENCY = wt then [stage_call Load p tq] else [])
     @ (if SIGNAL = wt \<or> UPDATE = wt then [] else [poll_call [ArgParams p, ArgStr wt] tq])"

fun scn_calls_made :: "string \<Rightarrow> pc \<Rightarrow> nat" where
  "scn_calls_made wt AwaitTaskQueue = 1"
| "scn_calls_made wt AwaitSleep = 1"
| "scn_calls_made wt AwaitValidate = 2"
| "scn_calls_made wt AwaitExtract = 3"
| "scn_calls_made wt AwaitTransform = 4"
| "scn_calls_made wt AwaitLoad = 5"
| "scn_calls_made wt AwaitLoadAgain = 6"
| "scn_calls_made wt AwaitSignal = 5"
| "scn_calls_made wt AwaitUpdate = 5"
| "scn_calls_made wt AwaitPoll = 6 + (if IDEMPOTENCY = wt then 1 else 0)"
| "scn_calls_made wt Finished = length (scn_plan wt undefined None)"

fun scn_pc_ok :: "string \<Rightarrow> wf_state \<Rightarrow> pc \<Rightarrow> bool" where
  "scn_pc_ok wt s AwaitLoad = (BUG \<noteq> wt)"
| "scn_pc_ok wt s AwaitLoadAgain = (IDEMPOTENCY = wt)"
| "scn_pc_ok wt s AwaitSignal =
     (SIGNAL = wt \<and>
      (outcome s = Running \<longrightarrow> \<not> load_complete_signal s \<and> last (commands s) = StartTimer 60))"
| "scn_pc_ok wt s AwaitUpdate =
     (UPDATE = wt \<and>
      (outcome s = Running \<longrightarrow> \<not> load_complete_update s \<and> last (commands s) = StartTimer 60))"
| "scn_pc_ok wt s AwaitPoll = (BUG \<noteq> wt \<and> SIGNAL \<noteq> wt \<and> UPDATE \<noteq> wt)"
| "scn_pc_ok wt s Finished = (BUG \<noteq> wt)"
| "scn_pc_ok wt s _ = True"

fun failure_ok :: "pc \<Rightarrow> wf_failure \<Rightarrow> bool" where
  "failure_ok k (ApplicationError m c) =
     ((k = AwaitValidate \<and> m = ''Workflow failed due to validation'' \<and> c = Some ''Validation Failed'')
      \<or> ((k = AwaitSignal \<or> k = AwaitUpdate) \<and> m = ''Load did not complete before timeout'' \<and> c = None))"
| "failure_ok k (ActivityError a m) = (pending_activity k = Some a)"

fun scn_outcome_ok :: "string \<Rightarrow> params \<Rightarrow> pc \<Rightarrow> outcome \<Rightarrow> bool" where
  "scn_outcome_ok wt p k Running = (k \<noteq> Finished)"
| "scn_outcome_ok wt p k (Returned r) = (k = Finished \<and> r = scn_message p)"
| "scn_outcome_ok wt p k (TaskFailed m) = (k = AwaitTransform \<and> BUG = wt \<and> m = ''Workflow bug!'')"
| "scn_outcome_ok wt p k (Failed e) = failure_ok k e"

definition scn_inv :: "string \<Rightarrow> params \<Rightarrow> wf_state \<Rightarrow> bool" where
  "scn_inv wt p s \<longleftrightarrow>
     progress s = checkpoint (pc s)
   \<and> search_attribute_values (commands s) =
       (if VISIBILITY = wt then take (stage_index (pc s)) visibility_steps else [])
   \<and> activity_calls (commands s) =
       take (scn_calls_made wt (pc s)) (scn_plan wt (scn_effective_input wt p) (task_queue s))
   \<and> wf_input s = (if stage_index (pc s) = 0 then p else scn_effective_input wt p)
   \<and> (task_queue s = None \<longleftrightarrow> pc s = AwaitTaskQueue)
   \<and> scn_pc_ok wt s (pc s)
   \<and> scn_outcome_ok wt p (pc s) (outcome s)"

text \<open>A cooperative environment: every activity succeeds, validation accepts, and
  the human confirmation of the signal and update scenarios arrives.\<close>

definition scn_happy_events :: "string \<Rightarrow> string \<Rightarrow> event list" where
  "scn_happy_events wt q =
     [ActivityCompleted (PyStr q), TimerFired, ActivityCompleted (PyBool True),
      ActivityCompleted (PyStr ''extracted''), ActivityCompleted (PyStr ''transformed''),
      ActivityCompleted (PyStr ''loaded'')]
     @ (if IDEMPOTENCY = wt then [ActivityCompleted (PyStr ''loaded'')] else [])
     @ (if SIGNAL = wt then [Signal ''load_complete_signal'' ''complete'']
        else if UPDATE = wt then [Update ''load_complete_update'' ''complete'']
        else [ActivityCompleted (PyStr ''polled'')])"

subsection \<open>Segment normal forms and the invariant\<close>

lemmas scn_segment_defs [wf_defs] =
  scn_init_def scn_start_def scn_after_task_queue_def scn_after_sleep_def
  scn_after_validate_def scn_after_extract_def scn_after_transform_def scn_finish_def
  scn_gate_def scn_after_load_def scn_gate_timeout_def scn_load_complete_signal_def
  scn_load_complete_update_def scn_wake_def

lemma scn_variants_distinct [simp]:
  "BUG \<noteq> FAILURE" "BUG \<noteq> SIGNAL" "BUG \<noteq> UPDATE" "BUG \<noteq> VISIBILITY" "BUG \<noteq> IDEMPOTENCY"
  "FAILURE \<noteq> BUG" "FAILURE \<noteq> SIGNAL" "FAILURE \<noteq> UPDATE" "FAILURE \<noteq> VISIBILITY" "FAILURE \<noteq> IDEMPOTENCY"
  "SIGNAL \<noteq> BUG" "SIGNAL \<noteq> FAILURE" "SIGNAL \<noteq> UPDATE" "SIGNAL \<noteq> VISIBILITY" "SIGNAL \<noteq> IDEMPOTENCY"
  "UPDATE \<noteq> BUG" "UPDATE \<noteq> FAILURE" "UPDATE \<noteq> SIGNAL" "UPDATE \<noteq> VISIBILITY" "UPDATE \<noteq> IDEMPOTENCY"
  "VISIBILITY \<noteq> BUG" "VISIBILITY \<noteq> FAILURE" "VISIBILITY \<noteq> SIGNAL" "VISIBILITY \<noteq> UPDATE" "VISIBILITY \<noteq> IDEMPOTENCY"
  "IDEMPOTENCY \<noteq> BUG" "IDEMPOTENCY \<noteq> FAILURE" "IDEMPOTENCY \<noteq> SIGNAL" "IDEMPOTENCY \<noteq> UPDATE" "IDEMPOTENCY \<noteq> VISIBILITY"
  by (simp_all add: BUG_def FAILURE_def SIGNAL_def UPDATE_def VISIBILITY_def IDEMPOTENCY_def)

lemma scn_tag_views [simp]:
  "activity_calls (scn_tag wt v) = []"
  "search_attribute_values (scn_tag wt v) = (if VISIBILITY = wt then [v] else [])"
  by (simp_all add: scn_tag_def)

lemma input_filename_scn_effective_input [simp]:
  "input_filename (scn_effective_input wt p) = input_filename p"
  by (simp add: scn_effective_input_def)

lemma scn_message_effective_input [simp]:
  "scn_message (scn_effective_input wt p) = scn_message p"
  by (simp add: scn_message_def)

lemma scn_start_nf: "scn_start p =
   (scn_init p)\<lparr>commands := [ScheduleActivity discovery_call]\<rparr>"
  by (simp add: scn_start_def scn_init_def wf_defs discovery_call_def)

lemma scn_after_task_queue_nf: "scn_after_task_queue q s =
   s\<lparr>task_queue := Some q, progress := 10, pc := AwaitSleep, commands := commands s @ [StartTimer 2]\<rparr>"
  by (simp add: scn_after_task_queue_def wf_defs)

lemma scn_after_sleep_nf: "scn_after_sleep wt s =
   s\<lparr>wf_input := scn_effective_input wt (wf_input s), pc := AwaitValidate,
     commands := commands s @ scn_tag wt ''validation''
       @ [ScheduleActivity (stage_call Validate (scn_effective_input wt (wf_input s)) None)]\<rparr>"
  by (simp add: scn_after_sleep_def wf_defs scn_tag_def scn_effective_input_def stage_call_def Let_def)

lemma scn_after_validate_nf: "scn_after_validate wt v s =
   (if v = PyBool False
    then wf_raise (ApplicationError ''Workflow failed due to validation'' (Some ''Validation Failed'')) s
    else s\<lparr>progress := 20, pc := AwaitExtract,
      commands := commands s @ scn_tag wt ''extract''
        @ [ScheduleActivity (stage_call Extract (wf_input s) (task_queue s))]\<rparr>)"
  by (simp add: scn_after_validate_def wf_defs scn_tag_def stage_call_def Let_def)

lemma scn_after_extract_nf: "scn_after_extract wt s =
   s\<lparr>progress := 40, pc := AwaitTransform,
     commands := commands s @ scn_tag wt ''transform''
       @ [ScheduleActivity (stage_call Transform (wf_input s) (task_queue s))]\<rparr>"
  by (simp add: scn_after_extract_def wf_defs scn_tag_def stage_call_def Let_def)

lemma scn_after_transform_nf: "scn_after_transform wt s =
   (if BUG = wt then s\<lparr>outcome := TaskFailed ''Workflow bug!''\<rparr>
    else s\<lparr>progress := 60, pc := AwaitLoad,
      commands := commands s @ scn_tag wt ''load''
        @ [ScheduleActivity (stage_call Load (wf_input s) (task_queue s))]\<rparr>)"
  by (simp add: scn_after_transform_def wf_defs scn_tag_def stage_call_def Let_def)

lemma scn_finish_nf: "scn_finish wt s =
   s\<lparr>progress := 100, pc := Finished, outcome := Returned (scn_message (wf_input s)),
     commands := commands s @ scn_tag wt ''complete'' @ [CompleteWorkflow (scn_message (wf_input s))]\<rparr>"
  by (simp add: scn_finish_def wf_defs scn_tag_def scn_message_def Let_def)

lemma scn_gate_nf: "scn_gate wt s =
   (if SIGNAL = wt then
      (if load_complete_signal s then scn_finish wt (s\<lparr>progress := 80\<rparr>)
       else s\<lparr>progress := 80, pc := AwaitSignal, commands := commands s @ [StartTimer 60]\<rparr>)
    else if UPDATE = wt then
      (if load_complete_update s then scn_finish wt (s\<lparr>progress := 80\<rparr>)
       else s\<lparr>progress := 80, pc := AwaitUpdate, commands := commands s @ [StartTimer 60]\<rparr>)
    else s\<lparr>progress := 80, pc := AwaitPoll,
      commands := commands s
        @ [ScheduleActivity (poll_call [ArgParams (wf_input s), ArgStr wt] (task_queue s))]\<rparr>)"
  by (simp add: scn_gate_def wf_defs poll_call_def Let_def)

lemma scn_after_load_nf: "scn_after_load wt s =
   (if IDEMPOTENCY = wt
    then s\<lparr>pc := AwaitLoadAgain,
      commands := commands s @ [ScheduleActivity (stage_call Load (wf_input s) (task_queue s))]\<rparr>
    else scn_gate wt s)"
  by (simp add: scn_after_load_def wf_defs stage_call_def)

lemmas scn_nf = scn_after_task_queue_nf scn_after_sleep_nf scn_after_validate_nf
  scn_after_extract_nf scn_after_transform_nf scn_finish_nf scn_gate_nf scn_after_load_nf

lemma scn_inv_start: "scn_inv wt p (scn_start p)"
  by (simp add: scn_inv_def scn_start_nf scn_init_def scn_plan_def)

lemma scn_inv_flags:
  "outcome s \<noteq> Running \<or> pc s \<notin> {AwaitSignal, AwaitUpdate} \<Longrightarrow>
   scn_inv wt p (s\<lparr>load_complete_signal := b, load_complete_update := c\<rparr>) = scn_inv wt p s"
  by (cases "pc s") (auto simp: scn_inv_def)

lemmas scn_inv_simps = scn_inv_def scn_nf scn_plan_def visibility_steps_def

lemma scn_inv_after_task_queue:
  "scn_inv wt p s \<Longrightarrow> pc s = AwaitTaskQueue \<Longrightarrow> outcome s = Running \<Longrightarrow>
   scn_inv wt p (scn_after_task_queue q s)"
  by (simp add: scn_inv_simps)

lemma scn_inv_after_sleep:
  "scn_inv wt p s \<Longrightarrow> pc s = AwaitSleep \<Longrightarrow> outcome s = Running \<Longrightarrow>
   scn_inv wt p (scn_after_sleep wt s)"
  by (simp add: scn_inv_simps)

lemma scn_inv_after_validate:
  "scn_inv wt p s \<Longrightarrow> pc s = AwaitValidate \<Longrightarrow> outcome s = Running \<Longrightarrow>
   scn_inv wt p (scn_after_validate wt v s)"
  by (auto simp: scn_inv_simps wf_defs)

lemma scn_inv_after_extract:
  "scn_inv wt p s \<Longrightarrow> pc s = AwaitExtract \<Longrightarrow> outcome s = Running \<Longrightarrow>
   scn_inv wt p (scn_after_extract wt s)"
  by (auto simp: scn_inv_simps)

lemma scn_inv_after_transform:
  "scn_inv wt p s \<Longrightarrow> pc s = AwaitTransform \<Longrightarrow> outcome s = Running \<Longrightarrow>
   scn_inv wt p (scn_after_transform wt s)"
  by (auto simp: scn_inv_simps)

lemma scn_inv_gate:
  "scn_inv wt p s \<Longrightarrow> pc s = AwaitLoad \<and> IDEMPOTENCY \<noteq> wt \<or> pc s = AwaitLoadAgain \<Longrightarrow>
   outcome s = Running \<Longrightarrow> scn_inv wt p (scn_gate wt s)"
  by (auto simp: scn_inv_simps)

lemma scn_inv_after_load:
  "scn_inv wt p s \<Longrightarrow> pc s = AwaitLoad \<Longrightarrow> outcome s = Running \<Longrightarrow>
   scn_inv wt p (scn_after_load wt s)"
  using scn_inv_gate [of wt p s] by (auto simp: scn_inv_simps)

lemma scn_inv_finish_poll:
  "scn_inv wt p s \<Longrightarrow> pc s = AwaitPoll \<Longrightarrow> outcome s = Running \<Longrightarrow>
   scn_inv wt p (scn_finish wt s)"
  by (auto simp: scn_inv_simps)

lemma scn_inv_timeout:
  "scn_inv wt p s \<Longrightarrow> pc s = AwaitSignal \<or> pc s = AwaitUpdate \<Longrightarrow> outcome s = Running \<Longrightarrow>
   scn_inv wt p (scn_gate_timeout s)"
  by (auto simp: scn_inv_def scn_gate_timeout_def wf_defs)

lemma scn_inv_activity_failed:
  "scn_inv wt p s \<Longrightarrow> pending_activity (pc s) = Some a \<Longrightarrow> outcome s = Running \<Longrightarrow>
   scn_inv wt p (wf_raise (ActivityError a m) s)"
  by (cases "pc s") (auto simp: scn_inv_def wf_defs)

lemma scn_inv_wake_signal:
  "scn_inv wt p s \<Longrightarrow> \<not> wf_closed s \<Longrightarrow> scn_inv wt p (scn_wake wt (scn_load_complete_signal s))"
  by (cases "pc s") (auto simp: scn_inv_simps scn_wake_def scn_load_complete_signal_def wf_closed_def split: outcome.splits)

lemma scn_inv_wake_update:
  "scn_inv wt p s \<Longrightarrow> \<not> wf_closed s \<Longrightarrow>
   scn_inv wt p (scn_wake wt (fst (scn_load_complete_update s)))"
  by (cases "pc s") (auto simp: scn_inv_simps scn_wake_def scn_load_complete_update_def wf_closed_def split: outcome.splits)

lemma scn_step_inv:
  assumes "scn_inv wt p s" and "scn_step wt s e = Some (t, r)"
  shows "scn_inv wt p t"
proof (cases e)
  case (Query n)
  with assms show ?thesis by auto
next
  case (Signal n x)
  with assms show ?thesis by (auto simp: scn_inv_wake_signal split: if_splits)
next
  case (Update n x)
  with assms show ?thesis by (auto simp: scn_inv_wake_update split: if_splits)
next
  case (ActivityCompleted v)
  with assms show ?thesis
    by (cases "pc s")
       (auto split: if_splits pyval.splits
         intro: scn_inv_after_task_queue scn_inv_after_validate scn_inv_after_extract
           scn_inv_after_transform scn_inv_after_load scn_inv_gate scn_inv_finish_poll)
next
  case (ActivityFailed m)
  with assms show ?thesis
    by (auto split: if_splits option.splits intro: scn_inv_activity_failed)
next
  case TimerFired
  with assms show ?thesis
    by (cases "pc s") (auto split: if_splits intro: scn_inv_after_sleep scn_inv_timeout)
qed

lemma scn_reach_inv: "reach (scn_step wt) (scn_start p) s \<Longrightarrow> scn_inv wt p s"
  by (rule reach_invariant [where I = "scn_inv wt p"]) (auto intro: scn_inv_start scn_step_inv)

subsection \<open>Properties of the scenarios workflow\<close>

lemma scn_happy_run_state:
  assumes "BUG \<noteq> wt"
  shows "\<exists>s. run_events (scn_step wt) (scn_start p) (scn_happy_events wt q) = Some s
    \<and> outcome s = Returned (scn_message p) \<and> progress s = 100 \<and> task_queue s = Some q"
proof -
  consider "SIGNAL = wt" | "UPDATE = wt" | "IDEMPOTENCY = wt"
    | "SIGNAL \<noteq> wt" "UPDATE \<noteq> wt" "IDEMPOTENCY \<noteq> wt" by blast
  then show ?thesis
  proof cases
    case 1
    then show ?thesis
      by (auto simp: scn_happy_events_def scn_start_nf scn_init_def scn_nf scn_wake_def
            scn_load_complete_signal_def wf_defs)
  next
    case 2
    then show ?thesis
      by (auto simp: scn_happy_events_def scn_start_nf scn_init_def scn_nf scn_wake_def
            scn_load_complete_update_def wf_defs)
  next
    case 3
    then show ?thesis
      by (auto simp: scn_happy_events_def scn_start_nf scn_init_def scn_nf wf_defs)
  next
    case 4
    with assms show ?thesis
      by (auto simp: scn_happy_events_def scn_start_nf scn_init_def scn_nf wf_defs)
  qed
qed

lemma scn_step_mono:
  assumes "scn_inv wt p s" and "scn_step wt s e = Some (t, r)"
  shows "progress s \<le> progress t \<and> prefix (commands s) (commands t)"
proof (cases e)
  case (Query n)
  with assms show ?thesis by auto
next
  case (Signal n x)
  with assms show ?thesis
    by (cases "pc s") (auto simp: scn_inv_def scn_nf scn_wake_def scn_load_complete_signal_def split: if_splits)
next
  case (Update n x)
  with assms show ?thesis
    by (cases "pc s") (auto simp: scn_inv_def scn_nf scn_wake_def scn_load_complete_update_def split: if_splits)
next
  case (ActivityCompleted v)
  with assms show ?thesis
    by (cases "pc s") (auto simp: scn_inv_def scn_nf wf_defs split: if_splits pyval.splits)
next
  case (ActivityFailed m)
  with assms show ?thesis
    by (auto simp: wf_defs split: if_splits option.splits)
next
  case TimerFired
  with assms show ?thesis
    by (cases "pc s") (auto simp: scn_inv_def scn_nf wf_defs split: if_splits)
qed

text \<open>C2: Progress never decreases over the lifetime of one instance: from any reachable state, every later state has progress at least as large.\<close>

theorem scn_progress_monotone:
  assumes "reach (scn_step wt) (scn_start p) s" and "reach (scn_step wt) s t"
  shows "progress s \<le> progress t"
  using assms
  by (rule reach_monotone [where R = "\<lambda>s t. progress s \<le> progress t"])
     (auto dest: scn_reach_inv scn_step_mono)

text \<open>C1: In every reachable state of the scenarios workflow, whatever the workflow type and whatever signals, updates, queries, activity results and failures were delivered, the progress value is one of the checkpoints 0, 10, 20, 40, 60, 80, 100.\<close>

theorem scn_progress_checkpoints:
  "reach (scn_step wt) (scn_start p) s \<Longrightarrow> progress s \<in> checkpoints"
  by (auto dest!: scn_reach_inv simp: scn_inv_def)

text \<open>C3: A run that returned produced the result string Successfully processed: <filename>!, left progress at 100, and issued exactly the activity plan of its variant (discovery, validate, extract, transform, load, the idempotency scenario's second load, and poll unless a human-in-the-loop gate replaced it), in order, with the pinned task queue.\<close>

theorem scn_completed_run:
  assumes "reach (scn_step wt) (scn_start p) s" and "outcome s = Returned r"
  shows "r = ''Successfully processed: '' @ input_filename p @ ''!'' \<and> progress s = 100
    \<and> activity_calls (commands s) = scn_plan wt (scn_effective_input wt p) (task_queue s)"
  using scn_reach_inv [OF assms(1)] assms(2)
  by (auto simp: scn_inv_def scn_message_def scn_plan_def)

lemma scn_visibility_prefix:
  "reach (scn_step wt) (scn_start p) s \<Longrightarrow>
   prefix (search_attribute_values (commands s)) (if VISIBILITY = wt then visibility_steps else [])"
  by (auto dest!: scn_reach_inv simp: scn_inv_def take_is_prefix)

text \<open>C9: A run that returned upserted the Step search attribute exactly with validation, extract, transform, load, complete, in that order, in the advanced-visibility scenario, and never in any other scenario.\<close>

theorem scn_visibility_tags:
  assumes "reach (scn_step wt) (scn_start p) s" and "outcome s = Returned r"
  shows "search_attribute_values (commands s) =
    (if VISIBILITY = wt then [''validation'', ''extract'', ''transform'', ''load'', ''complete'']
     else [])"
  using scn_reach_inv [OF assms(1)] assms(2)
  by (auto simp: scn_inv_def visibility_steps_def)

text \<open>C4: For every workflow type other than the recoverable-bug one (including type names that match none of the class constants), when the environment completes every activity, validation accepts and the human confirmation arrives, the run returns the success string for the input file with progress 100.\<close>

theorem scn_happy_run:
  "BUG \<noteq> wt \<Longrightarrow>
   map_option (\<lambda>s. (outcome s, progress s))
     (run_events (scn_step wt) (scn_start p) (scn_happy_events wt q))
   = Some (Returned (''Successfully processed: '' @ input_filename p @ ''!''), 100)"
  by (auto dest!: scn_happy_run_state simp: scn_message_def)

theorem scn_happy_run_witness:
  "BUG \<noteq> ''DataPipelineSomethingElse'' \<and>
   map_option (\<lambda>s. (outcome s, progress s))
     (run_events (scn_step ''DataPipelineSomethingElse'') (scn_start demo_params)
        (scn_happy_events ''DataPipelineSomethingElse'' ''worker-1''))
   = Some (Returned ''Successfully processed: orders.csv!'', 100)"
proof -
  have h: "BUG \<noteq> ''DataPipelineSomethingElse''" by (simp add: BUG_def)
  show ?thesis using h scn_happy_run [OF h, of demo_params "''worker-1''"]
    by (simp add: demo_params_def)
qed

text \<open>C10: A run that returned invoked load exactly twice with identical arguments and options in the idempotency scenario, and exactly once otherwise.\<close>

theorem scn_idempotency_loads:
  assumes "reach (scn_step wt) (scn_start p) s" and "outcome s = Returned r"
  shows "filter (\<lambda>c. call_activity c = Load) (activity_calls (commands s))
    = replicate (if IDEMPOTENCY = wt then 2 else 1)
        (stage_call Load (scn_effective_input wt p) (task_queue s))"
  using scn_reach_inv [OF assms(1)] assms(2)
  by (auto simp: scn_inv_def scn_plan_def stage_call_def poll_call_def discovery_call_def numeral_2_eq_2)

text \<open>C11: Once the task queue has been discovered, every activity call after the discovery call and the validate call is routed to that same task queue.\<close>

theorem scn_worker_affinity:
  assumes "reach (scn_step wt) (scn_start p) s" and "task_queue s = Some q"
  shows "\<forall>c \<in> set (drop 2 (activity_calls (commands s))). call_task_queue c = Some q"
  using scn_reach_inv [OF assms(1)] assms(2)
  by (cases "pc s") (auto simp: scn_inv_def scn_plan_def stage_call_def poll_call_def)

text \<open>C5: In the non-recoverable-failure scenario, an ApplicationError ending the run is the validation failure, caused by CustomException Validation Failed; progress is then 10 (not 20), and only the discovery call and a validate call whose input has validation overwritten to blue were issued.\<close>

theorem scn_failure_rejection:
  assumes "reach (scn_step FAILURE) (scn_start p) s"
    and "outcome s = Failed (ApplicationError m c)"
  shows "m = ''Workflow failed due to validation'' \<and> c = Some ''Validation Failed''
    \<and> progress s = 10
    \<and> activity_calls (commands s) =
        [discovery_call, stage_call Validate (p\<lparr>validation := ''blue''\<rparr>) None]"
  using scn_reach_inv [OF assms(1)] assms(2)
  by (cases "pc s") (auto simp: scn_inv_def scn_plan_def scn_effective_input_def)

text \<open>C6: In the recoverable-bug scenario no reachable state has progress above 40, issued a load or poll activity, or returned a result.\<close>

theorem scn_bug_never_loads:
  assumes "reach (scn_step BUG) (scn_start p) s"
  shows "progress s \<le> 40
    \<and> (\<forall>c \<in> set (activity_calls (commands s)). call_activity c \<notin> {Load, Poll})
    \<and> (\<forall>r. outcome s \<noteq> Returned r)"
  using scn_reach_inv [OF assms(1)]
  by (cases "pc s") (auto simp: scn_inv_def scn_plan_def stage_call_def discovery_call_def)

lemma scn_closed_step:
  "wf_closed s \<Longrightarrow> scn_step wt s e = Some (t, r) \<Longrightarrow> t = s"
  by (cases e) (auto simp: wf_closed_def split: if_splits outcome.splits)

text \<open>C7: In the signal scenario, while waiting at the gate the run has started a 60 second timer with progress 80; the timer firing fails the run with Load did not complete before timeout, and a load_complete_signal signal instead completes it with the success string and progress 100.\<close>

theorem scn_signal_gate:
  assumes "reach (scn_step SIGNAL) (scn_start p) s" and "pc s = AwaitSignal"
    and "outcome s = Running"
  shows "last (commands s) = StartTimer 60 \<and> progress s = 80
    \<and> (\<exists>t. scn_step SIGNAL s TimerFired = Some (t, NoReply)
         \<and> outcome t = Failed (ApplicationError ''Load did not complete before timeout'' None)
         \<and> progress t = 80)
    \<and> (\<exists>t. scn_step SIGNAL s (Signal ''load_complete_signal'' x) = Some (t, NoReply)
         \<and> outcome t = Returned (''Successfully processed: '' @ input_filename p @ ''!'')
         \<and> progress t = 100)"
  using scn_reach_inv [OF assms(1)] assms(2,3)
  by (auto simp: scn_inv_def scn_gate_timeout_def scn_wake_def scn_load_complete_signal_def
        scn_finish_nf scn_message_def wf_defs)

text \<open>C8: In the update scenario, while waiting at the gate the run has started a 60 second timer with progress 80; the timer firing fails the run, and a load_complete_update update is acknowledged with Workflow update successful and completes the run with progress 100.\<close>

theorem scn_update_gate:
  assumes "reach (scn_step UPDATE) (scn_start p) s" and "pc s = AwaitUpdate"
    and "outcome s = Running"
  shows "last (commands s) = StartTimer 60 \<and> progress s = 80
    \<and> (\<exists>t. scn_step UPDATE s TimerFired = Some (t, NoReply)
         \<and> outcome t = Failed (ApplicationError ''Load did not complete before timeout'' None))
    \<and> (\<exists>t. scn_step UPDATE s (Update ''load_complete_update'' x)
           = Some (t, UpdateResult ''Workflow update successful'')
         \<and> outcome t = Returned (''Successfully processed: '' @ input_filename p @ ''!'')
         \<and> progress t = 100)"
  using scn_reach_inv [OF assms(1)] assms(2,3)
  by (auto simp: scn_inv_def scn_gate_timeout_def scn_wake_def scn_load_complete_update_def
        scn_finish_nf scn_message_def wf_defs)

text \<open>C12: In every reachable state each activity has been scheduled at most once, except load, which the idempotency scenario schedules at most twice.\<close>

theorem scn_at_most_once:
  assumes "reach (scn_step wt) (scn_start p) s"
  shows "length (filter (\<lambda>c. call_activity c = a) (activity_calls (commands s)))
    \<le> (if a = Load \<and> IDEMPOTENCY = wt then 2 else 1)"
proof -
  let ?P = "\<lambda>c. call_activity c = a"
  let ?plan = "scn_plan wt (scn_effective_input wt p) (task_queue s)"
  from scn_reach_inv [OF assms]
  have "length (filter ?P (activity_calls (commands s))) \<le> length (filter ?P ?plan)"
    by (simp add: scn_inv_def length_filter_take_le)
  also have "\<dots> \<le> (if a = Load \<and> IDEMPOTENCY = wt then 2 else 1)"
    by (cases a) (auto simp: scn_plan_def stage_call_def poll_call_def discovery_call_def)
  finally show ?thesis .
qed

text \<open>C13: Every activity call has the time budgets of the code: discovery 10 seconds without heartbeat or retry policy; validate, extract, transform and load 300 seconds with a 20 second heartbeat and the default retry policy; poll 3000 seconds with a 20 second heartbeat and the constant 2 second retry policy.\<close>

theorem scn_call_budgets:
  assumes "reach (scn_step wt) (scn_start p) s" and "c \<in> set (activity_calls (commands s))"
  shows "(call_activity c = Get_available_task_queue \<longrightarrow> c = discovery_call)
    \<and> (call_activity c \<in> {Validate, Extract, Transform, Load} \<longrightarrow>
         start_to_close c = 300 \<and> heartbeat_timeout c = Some 20 \<and> call_retry_policy c = None)
    \<and> (call_activity c = Poll \<longrightarrow>
         start_to_close c = 3000 \<and> heartbeat_timeout c = Some 20
         \<and> call_retry_policy c = Some poll_retry_policy)"
proof -
  from scn_reach_inv [OF assms(1)] assms(2)
  have "c \<in> set (scn_plan wt (scn_effective_input wt p) (task_queue s))"
    by (auto simp: scn_inv_def dest: in_set_takeD)
  then show ?thesis
    by (auto simp: scn_plan_def stage_call_def poll_call_def discovery_call_def split: if_splits)
qed

subsection \<open>Witnesses\<close>

lemma scn_happy_reach:
  "BUG \<noteq> wt \<Longrightarrow> \<exists>s. reach (scn_step wt) (scn_start p) s
     \<and> outcome s = Returned (scn_message p) \<and> progress s = 100 \<and> task_queue s = Some q"
  by (blast dest: scn_happy_run_state [of wt p q] intro: reach_run_events)

lemma scn_demo_rejected:
  "\<exists>s. reach (scn_step FAILURE) (scn_start demo_params) s
     \<and> outcome s = Failed (ApplicationError ''Workflow failed due to validation'' (Some ''Validation Failed''))"
proof -
  have "\<exists>s. run_events (scn_step FAILURE) (scn_start demo_params)
      [ActivityCompleted (PyStr ''worker-1''), TimerFired, ActivityCompleted (PyBool False)] = Some s
    \<and> outcome s = Failed (ApplicationError ''Workflow failed due to validation'' (Some ''Validation Failed''))"
    by (simp add: scn_start_nf scn_init_def scn_nf wf_defs)
  then show ?thesis by (blast intro: reach_run_events)
qed

lemma scn_demo_bug:
  "\<exists>s. reach (scn_step BUG) (scn_start demo_params) s \<and> outcome s = TaskFailed ''Workflow bug!''"
proof -
  have "\<exists>s. run_events (scn_step BUG) (scn_start demo_params)
      (take 5 (scn_happy_events BUG ''worker-1'')) = Some s
    \<and> outcome s = TaskFailed ''Workflow bug!''"
    by (simp add: scn_happy_events_def scn_start_nf scn_init_def scn_nf wf_defs)
  then show ?thesis by (blast intro: reach_run_events)
qed

lemma scn_demo_gate:
  "SIGNAL = wt \<or> UPDATE = wt \<Longrightarrow> \<exists>s. reach (scn_step wt) (scn_start demo_params) s
     \<and> pc s = (if SIGNAL = wt then AwaitSignal else AwaitUpdate) \<and> outcome s = Running"
proof -
  assume wt: "SIGNAL = wt \<or> UPDATE = wt"
  then have "\<exists>s. run_events (scn_step wt) (scn_start demo_params)
      (take 6 (scn_happy_events wt ''worker-1'')) = Some s
    \<and> pc s = (if SIGNAL = wt then AwaitSignal else AwaitUpdate) \<and> outcome s = Running"
    by (auto simp: scn_happy_events_def scn_start_nf scn_init_def scn_nf wf_defs)
  then show ?thesis by (blast intro: reach_run_events)
qed

theorem scn_progress_checkpoints_witness:
  "\<exists>s. reach (scn_step VISIBILITY) (scn_start demo_params) s \<and> progress s = 100
     \<and> progress s \<in> checkpoints"
proof -
  obtain s where s: "reach (scn_step VISIBILITY) (scn_start demo_params) s" "progress s = 100"
    using scn_happy_reach [of VISIBILITY demo_params "''worker-1''"] by auto
  with scn_progress_checkpoints [OF s(1)] show ?thesis by blast
qed

theorem scn_progress_monotone_witness:
  "\<exists>t. reach (scn_step IDEMPOTENCY) (scn_start demo_params) (scn_start demo_params)
     \<and> reach (scn_step IDEMPOTENCY) (scn_start demo_params) t
     \<and> progress (scn_start demo_params) \<le> progress t \<and> progress t = 100"
proof -
  obtain t where t: "reach (scn_step IDEMPOTENCY) (scn_start demo_params) t" "progress t = 100"
    using scn_happy_reach [of IDEMPOTENCY demo_params "''worker-1''"] by auto
  have s: "reach (scn_step IDEMPOTENCY) (scn_start demo_params) (scn_start demo_params)"
    by (rule reach_start)
  from scn_progress_monotone [OF s t(1)] s t show ?thesis by blast
qed

theorem scn_failure_rejection_witness:
  "\<exists>s. reach (scn_step FAILURE) (scn_start demo_params) s \<and> progress s = 10
     \<and> activity_calls (commands s) = [discovery_call,
         stage_call Validate (demo_params\<lparr>validation := ''blue''\<rparr>) None]"
proof -
  obtain s where s: "reach (scn_step FAILURE) (scn_start demo_params) s"
    "outcome s = Failed (ApplicationError ''Workflow failed due to validation'' (Some ''Validation Failed''))"
    using scn_demo_rejected by blast
  from scn_failure_rejection [OF s] s(1) show ?thesis by blast
qed

theorem scn_signal_gate_witness:
  "\<exists>s. reach (scn_step SIGNAL) (scn_start demo_params) s \<and> pc s = AwaitSignal
     \<and> outcome s = Running \<and> last (commands s) = StartTimer 60"
proof -
  obtain s where s: "reach (scn_step SIGNAL) (scn_start demo_params) s" "pc s = AwaitSignal"
    "outcome s = Running"
    using scn_demo_gate [of SIGNAL] by auto
  from scn_signal_gate [OF s, of "''done''"] s show ?thesis by blast
qed

theorem scn_completed_run_witness:
  "\<exists>s. reach (scn_step IDEMPOTENCY) (scn_start demo_params) s
     \<and> outcome s = Returned ''Successfully processed: orders.csv!''
     \<and> activity_calls (commands s) =
         scn_plan IDEMPOTENCY (scn_effective_input IDEMPOTENCY demo_params) (task_queue s)"
proof -
  obtain s where s: "reach (scn_step IDEMPOTENCY) (scn_start demo_params) s"
    "outcome s = Returned (scn_message demo_params)"
    using scn_happy_reach [of IDEMPOTENCY demo_params "''worker-1''"] by auto
  have "outcome s = Returned ''Successfully processed: orders.csv!''"
    using s(2) by (simp add: scn_message_def demo_params_def)
  with scn_completed_run [OF s] s(1) show ?thesis by blast
qed

theorem scn_visibility_tags_witness:
  "\<exists>s. reach (scn_step VISIBILITY) (scn_start demo_params) s
     \<and> search_attribute_values (commands s) =
         [''validation'', ''extract'', ''transform'', ''load'', ''complete'']"
proof -
  obtain s where s: "reach (scn_step VISIBILITY) (scn_start demo_params) s"
    "outcome s = Returned (scn_message demo_params)"
    using scn_happy_reach [of VISIBILITY demo_params "''worker-1''"] by auto
  have "search_attribute_values (commands s) =
      [''validation'', ''extract'', ''transform'', ''load'', ''complete'']"
    using scn_visibility_tags [OF s] by simp
  with s(1) show ?thesis by blast
qed

theorem scn_idempotency_loads_witness:
  "\<exists>s. reach (scn_step IDEMPOTENCY) (scn_start demo_params) s
     \<and> length (filter (\<lambda>c. call_activity c = Load) (activity_calls (commands s))) = 2"
proof -
  obtain s where s: "reach (scn_step IDEMPOTENCY) (scn_start demo_params) s"
    "outcome s = Returned (scn_message demo_params)"
    using scn_happy_reach [of IDEMPOTENCY demo_params "''worker-1''"] by auto
  from scn_idempotency_loads [OF s] s(1) show ?thesis by auto
qed

theorem scn_worker_affinity_witness:
  "\<exists>s. reach (scn_step UPDATE) (scn_start demo_params) s \<and> task_queue s = Some ''worker-1''
     \<and> (\<forall>c \<in> set (drop 2 (activity_calls (commands s))). call_task_queue c = Some ''worker-1'')"
proof -
  obtain s where s: "reach (scn_step UPDATE) (scn_start demo_params) s"
    "task_queue s = Some ''worker-1''"
    using scn_happy_reach [of UPDATE demo_params "''worker-1''"] by auto
  from scn_worker_affinity [OF s] s show ?thesis by blast
qed

theorem scn_bug_never_loads_witness:
  "\<exists>s. reach (scn_step BUG) (scn_start demo_params) s \<and> outcome s = TaskFailed ''Workflow bug!''
     \<and> progress s \<le> 40
     \<and> (\<forall>c \<in> set (activity_calls (commands s)). call_activity c \<notin> {Load, Poll})"
proof -
  obtain s where s: "reach (scn_step BUG) (scn_start demo_params) s"
    "outcome s = TaskFailed ''Workflow bug!''"
    using scn_demo_bug by blast
  from scn_bug_never_loads [OF s(1)] s show ?thesis by blast
qed

theorem scn_update_gate_witness:
  "\<exists>s. reach (scn_step UPDATE) (scn_start demo_params) s \<and> pc s = AwaitUpdate
     \<and> outcome s = Running \<and> last (commands s) = StartTimer 60"
proof -
  obtain s where s: "reach (scn_step UPDATE) (scn_start demo_params) s" "pc s = AwaitUpdate"
    "outcome s = Running"
    using scn_demo_gate [of UPDATE] by auto
  from scn_update_gate [OF s, of "''done''"] s show ?thesis by blast
qed

theorem scn_at_most_once_witness:
  "\<exists>s. reach (scn_step VISIBILITY) (scn_start demo_params) s
     \<and> length (filter (\<lambda>c. call_activity c = Extract) (activity_calls (commands s))) \<le> 1"
proof -
  obtain s where s: "reach (scn_step VISIBILITY) (scn_start demo_params) s"
    using scn_happy_reach [of VISIBILITY demo_params "''worker-1''"] by auto
  from scn_at_most_once [OF s, of Extract] s show ?thesis by auto
qed

theorem scn_call_budgets_witness:
  "\<exists>s c. reach (scn_step VISIBILITY) (scn_start demo_params) s
     \<and> c \<in> set (activity_calls (commands s)) \<and> call_activity c = Poll
     \<and> start_to_close c = 3000 \<and> call_retry_policy c = Some poll_retry_policy"
proof -
  obtain s where s: "reach (scn_step VISIBILITY) (scn_start demo_params) s"
    "outcome s = Returned (scn_message demo_params)"
    using scn_happy_reach [of VISIBILITY demo_params "''worker-1''"] by auto
  let ?c = "poll_call [ArgParams demo_params, ArgStr VISIBILITY] (task_queue s)"
  from scn_completed_run [OF s] have c: "?c \<in> set (activity_calls (commands s))"
    by (simp add: scn_plan_def scn_effective_input_def)
  have "start_to_close ?c = 3000 \<and> call_retry_policy ?c = Some poll_retry_policy"
    using scn_call_budgets [OF s(1) c] by (simp add: poll_call_def)
  moreover have "call_activity ?c = Poll" by (simp add: poll_call_def)
  ultimately show ?thesis using s(1) c by blast
qed

end
