(* ===== verification/Workflow_Happy_Path.thy ===== *)
theory Workflow_Happy_Path
  imports Pipeline_Spec
begin

text \<open>
  \<open>src/DataPipelineWorkflowHappyPath.py\<close>: the class \<open>DataPipelineWorkflowHappyPath\<close>,
  the plain pipeline.  Its \<open>run\<close> differs from the scenarios class in three places: a
  rejected validation \<open>return\<close>s the string \<open>"invalidated"\<close> instead of raising, there
  is no variant branch, and the class defines no signal or update handler (a signal is
  buffered by the SDK and changes nothing, an update is rejected).  The workflow type
  \<open>wt\<close> enters only as the second argument of \<open>poll\<close>.
\<close>

subsection \<open>The segments of \<open>run\<close>\<close>

text \<open>\<open>__init__\<close> (lines 13--14) with the input of \<open>run\<close> (line 17).\<close>

definition hp_init :: "params \<Rightarrow> wf_state" where
  "hp_init p =
     \<lparr>pc = AwaitTaskQueue, progress = 0, load_complete_signal = False,
      load_complete_update = False, wf_input = p, task_queue = None, commands = [],
      outcome = Running\<rparr>"

text \<open>Lines 16--25: ask for a worker's task queue.\<close>

definition hp_start :: "params \<Rightarrow> wf_state" where
  "hp_start p =
     execute_activity Get_available_task_queue [] None 10 None None AwaitTaskQueue (hp_init p)"

text \<open>Lines 26--32: pin the task queue, progress 10, sleep 2 seconds.\<close>

definition hp_after_task_queue :: "string \<Rightarrow> wf_state \<Rightarrow> wf_state" where
  "hp_after_task_queue q s = sleep 2 AwaitSleep (s\<lparr>task_queue := Some q, progress := 10\<rparr>)"

text \<open>Lines 34--39: validate, on the workflow's own task queue.\<close>

definition hp_after_sleep :: "wf_state \<Rightarrow> wf_state" where
  "hp_after_sleep s =
     execute_activity Validate [ArgParams (wf_input s)] None 300 (Some 20) None AwaitValidate s"

text \<open>Lines 40--53: a rejected validation returns \<open>"invalidated"\<close>; otherwise progress 20
  and extract.\<close>

definition hp_after_validate :: "pyval \<Rightarrow> wf_state \<Rightarrow> wf_state" where
  "hp_after_validate v s =
     (if v = PyBool False then wf_return ''invalidated'' s
      else
        (let s1 = s\<lparr>progress := 20\<rparr>
         in execute_activity Extract [ArgParams (wf_input s1)] (task_queue s1) 300 (Some 20)
              None AwaitExtract s1))"

text \<open>Lines 54--65: progress 40, then transform.\<close>

definition hp_after_extract :: "wf_state \<Rightarrow> wf_state" where
  "hp_after_extract s =
     (let s1 = s\<lparr>progress := 40\<rparr>
      in execute_activity Transform [ArgParams (wf_input s1)] (task_queue s1) 300 (Some 20)
           None AwaitTransform s1)"

text \<open>Lines 66--77: progress 60, then load.\<close>

definition hp_after_transform :: "wf_state \<Rightarrow> wf_state" where
  "hp_after_transform s =
     (let s1 = s\<lparr>progress := 60\<rparr>
      in execute_activity Load [ArgParams (wf_input s1)] (task_queue s1) 300 (Some 20)
           None AwaitLoad s1)"

text \<open>Lines 78--90: progress 80, then poll with the input and the workflow type.\<close>

definition hp_after_load :: "string \<Rightarrow> wf_state \<Rightarrow> wf_state" where
  "hp_after_load wt s =
     (let s1 = s\<lparr>progress := 80\<rparr>
      in execute_activity Poll [ArgParams (wf_input s1), ArgStr wt] (task_queue s1) 3000
           (Some 20) (Some poll_retry_policy) AwaitPoll s1)"

text \<open>Lines 92--97: progress 100 and the result string.\<close>

definition hp_after_poll :: "wf_state \<Rightarrow> wf_state" where
  "hp_after_poll s =
     wf_return (''Successfully processed: '' @ input_filename (wf_input s) @ ''!'')
       (s\<lparr>progress := 100\<rparr>)"

subsection \<open>The instance as a step function\<close>

fun hp_step :: "string \<Rightarrow> (wf_state, event, reply) step_fn" where
  "hp_step wt s (Query n) = Some (s, progress_query s n)"
| "hp_step wt s (Signal n payload) = (if wf_closed s then None else Some (s, NoReply))"
| "hp_step wt s (Update n payload) =
     (if wf_closed s then None else Some (s, Rejected ''unknown update''))"
| "hp_step wt s (ActivityCompleted v) =
     (if outcome s \<noteq> Running then None
      else case pc s of
        AwaitTaskQueue \<Rightarrow>
          (case v of PyStr q \<Rightarrow> Some (hp_after_task_queue q s, NoReply) | _ \<Rightarrow> None)
      | AwaitValidate \<Rightarrow> Some (hp_after_validate v s, NoReply)
      | AwaitExtract \<Rightarrow> Some (hp_after_extract s, NoReply)
      | AwaitTransform \<Rightarrow> Some (hp_after_transform s, NoReply)
      | AwaitLoad \<Rightarrow> Some (hp_after_load wt s, NoReply)
      | AwaitPoll \<Rightarrow> Some (hp_after_poll s, NoReply)
      | _ \<Rightarrow> None)"
| "hp_step wt s (ActivityFailed m) =
     (if outcome s \<noteq> Running then None
      else case pending_activity (pc s) of
        Some a \<Rightarrow> Some (wf_raise (ActivityError a m) s, NoReply)
      | None \<Rightarrow> None)"
| "hp_step wt s TimerFired =
     (if outcome s = Running \<and> pc s = AwaitSleep then Some (hp_after_sleep s, NoReply)
      else None)"

subsection \<open>The run's contract\<close>

definition hp_plan :: "string \<Rightarrow> params \<Rightarrow> string option \<Rightarrow> act_call list" where
  "hp_plan wt p tq =
     [discovery_call, stage_call Validate p None, stage_call Extract p tq,
      stage_call Transform p tq, stage_call Load p tq, poll_call [ArgParams p, ArgStr wt] tq]"

text \<open>The \<open>await\<close> whose checkpoint the state shows: a run that returned
  \<open>"invalidated"\<close> ended at validation.\<close>

definition hp_stage :: "wf_state \<Rightarrow> pc" where
  "hp_stage s = (if outcome s = Returned ''invalidated'' then AwaitValidate else pc s)"

fun hp_calls_made :: "pc \<Rightarrow> nat" where
  "hp_calls_made AwaitTaskQueue = 1"
| "hp_calls_made AwaitSleep = 1"
| "hp_calls_made AwaitValidate = 2"
| "hp_calls_made AwaitExtract = 3"
| "hp_calls_made AwaitTransform = 4"
| "hp_calls_made AwaitLoad = 5"
| "hp_calls_made _ = 6"

fun hp_outcome_ok :: "params \<Rightarrow> pc \<Rightarrow> outcome \<Rightarrow> bool" where
  "hp_outcome_ok p k Running = (k \<notin> {Finished, AwaitLoadAgain, AwaitSignal, AwaitUpdate})"
| "hp_outcome_ok p k (Returned r) =
     (k = Finished \<and> (r = ''invalidated'' \<or> r = ''Successfully processed: '' @ input_filename p @ ''!''))"
| "hp_outcome_ok p k (TaskFailed m) = False"
| "hp_outcome_ok p k (Failed e) = (\<exists>a m. e = ActivityError a m \<and> pending_activity k = Some a)"

definition hp_inv :: "string \<Rightarrow> params \<Rightarrow> wf_state \<Rightarrow> bool" where
  "hp_inv wt p s \<longleftrightarrow>
     progress s = checkpoint (hp_stage s)
   \<and> activity_calls (commands s) = take (hp_calls_made (hp_stage s)) (hp_plan wt p (task_queue s))
   \<and> search_attribute_values (commands s) = []
   \<and> wf_input s = p
   \<and> (task_queue s = None \<longleftrightarrow> pc s = AwaitTaskQueue)
   \<and> hp_outcome_ok p (pc s) (outcome s)"

text \<open>A cooperative environment for the plain pipeline.\<close>

definition hp_happy_events :: "string \<Rightarrow> event list" where
  "hp_happy_events q =
     [ActivityCompleted (PyStr q), TimerFired, ActivityCompleted (PyBool True),
      ActivityCompleted (PyStr ''extracted''), ActivityCompleted (PyStr ''transformed''),
      ActivityCompleted (PyStr ''loaded''), ActivityCompleted (PyStr ''polled'')]"

subsection \<open>Segment normal forms and the invariant\<close>

lemma hp_start_nf: "hp_start p = (hp_init p)\<lparr>commands := [ScheduleActivity discovery_call]\<rparr>"
  by (simp add: hp_start_def hp_init_def wf_defs discovery_call_def)

lemma hp_after_task_queue_nf: "hp_after_task_queue q s =
   s\<lparr>task_queue := Some q, progress := 10, pc := AwaitSleep, commands := commands s @ [StartTimer 2]\<rparr>"
  by (simp add: hp_after_task_queue_def wf_defs)

lemma hp_after_sleep_nf: "hp_after_sleep s =
   s\<lparr>pc := AwaitValidate,
     commands := commands s @ [ScheduleActivity (stage_call Validate (wf_input s) None)]\<rparr>"
  by (simp add: hp_after_sleep_def wf_defs stage_call_def)

lemma hp_after_validate_nf: "hp_after_validate v s =
   (if v = PyBool False then wf_return ''invalidated'' s
    else s\<lparr>progress := 20, pc := AwaitExtract,
      commands := commands s @ [ScheduleActivity (stage_call Extract (wf_input s) (task_queue s))]\<rparr>)"
  by (simp add: hp_after_validate_def wf_defs stage_call_def Let_def)

lemma hp_after_extract_nf: "hp_after_extract s =
   s\<lparr>progress := 40, pc := AwaitTransform,
     commands := commands s @ [ScheduleActivity (stage_call Transform (wf_input s) (task_queue s))]\<rparr>"
  by (simp add: hp_after_extract_def wf_defs stage_call_def Let_def)

lemma hp_after_transform_nf: "hp_after_transform s =
   s\<lparr>progress := 60, pc := AwaitLoad,
     commands := commands s @ [ScheduleActivity (stage_call Load (wf_input s) (task_queue s))]\<rparr>"
  by (simp add: hp_after_transform_def wf_defs stage_call_def Let_def)

lemma hp_after_load_nf: "hp_after_load wt s =
   s\<lparr>progress := 80, pc := AwaitPoll,
     commands := commands s
       @ [ScheduleActivity (poll_call [ArgParams (wf_input s), ArgStr wt] (task_queue s))]\<rparr>"
  by (simp add: hp_after_load_def wf_defs poll_call_def Let_def)

lemmas hp_nf = hp_after_task_queue_nf hp_after_sleep_nf hp_after_validate_nf
  hp_after_extract_nf hp_after_transform_nf hp_after_load_nf

lemmas hp_inv_simps = hp_inv_def hp_stage_def hp_nf hp_plan_def

lemma hp_inv_start: "hp_inv wt p (hp_start p)"
  by (simp add: hp_inv_simps hp_start_nf hp_init_def)

lemma hp_inv_completed:
  assumes "hp_inv wt p s" and "outcome s = Running"
    and "hp_step wt s (ActivityCompleted v) = Some (t, r)"
  shows "hp_inv wt p t"
  using assms
  by (cases "pc s")
     (auto simp: hp_inv_simps hp_after_poll_def wf_defs split: if_splits pyval.splits)

lemma hp_step_inv:
  assumes "hp_inv wt p s" and "hp_step wt s e = Some (t, r)"
  shows "hp_inv wt p t"
proof (cases e)
  case (ActivityCompleted v)
  with assms show ?thesis by (auto intro: hp_inv_completed split: if_splits)
next
  case (ActivityFailed m)
  with assms show ?thesis
    by (cases "pc s") (auto simp: hp_inv_def hp_stage_def wf_defs split: if_splits)
next
  case TimerFired
  with assms show ?thesis by (auto simp: hp_inv_simps split: if_splits)
qed (use assms in \<open>auto split: if_splits\<close>)

lemma hp_reach_inv: "reach (hp_step wt) (hp_start p) s \<Longrightarrow> hp_inv wt p s"
  by (rule reach_invariant [where I = "hp_inv wt p"]) (auto intro: hp_inv_start hp_step_inv)

lemma hp_step_mono:
  assumes "hp_inv wt p s" and "hp_step wt s e = Some (t, r)"
  shows "progress s \<le> progress t"
  using assms
  by (cases e; cases "pc s")
     (auto simp: hp_inv_def hp_stage_def hp_nf hp_after_poll_def wf_defs split: if_splits pyval.splits)

lemma hp_happy_run_state:
  "\<exists>s. run_events (hp_step wt) (hp_start p) (hp_happy_events q) = Some s
     \<and> outcome s = Returned (''Successfully processed: '' @ input_filename p @ ''!'')
     \<and> progress s = 100 \<and> task_queue s = Some q"
  by (simp add: hp_happy_events_def hp_start_nf hp_init_def hp_nf hp_after_poll_def wf_defs)

lemma hp_demo_validating:
  "\<exists>s. reach (hp_step wt) (hp_start p) s \<and> pc s = AwaitValidate \<and> outcome s = Running"
proof -
  have "\<exists>s. run_events (hp_step wt) (hp_start p) (take 2 (hp_happy_events ''worker-1'')) = Some s
      \<and> pc s = AwaitValidate \<and> outcome s = Running"
    by (simp add: hp_happy_events_def hp_start_nf hp_init_def hp_nf wf_defs)
  then show ?thesis by (blast intro: reach_run_events)
qed

subsection \<open>Properties of the plain pipeline\<close>

text \<open>C14: In the happy-path class a validation result of False ends the run at once with
  the soft result "invalidated" (no failure is raised); progress stays at 10 (the spec
  says 20), and the instance is closed.\<close>

theorem hp_validation_rejected:
  assumes "reach (hp_step wt) (hp_start p) s" and "pc s = AwaitValidate"
    and "outcome s = Running"
  shows "\<exists>t. hp_step wt s (ActivityCompleted (PyBool False)) = Some (t, NoReply)
    \<and> outcome t = Returned ''invalidated'' \<and> progress t = 10 \<and> wf_closed t
    \<and> activity_calls (commands t) = [discovery_call, stage_call Validate p None]"
  using hp_reach_inv [OF assms(1)] assms(2,3)
  by (simp add: hp_inv_def hp_stage_def hp_plan_def hp_after_validate_nf wf_defs)

text \<open>C15: A happy-path run that returned anything but "invalidated" returned the success
  string for the input file, reached progress 100 and issued exactly discovery,
  validate, extract, transform, load and poll (with the workflow type as poll's second
  argument), all after discovery on the pinned task queue.\<close>

theorem hp_completed_run:
  assumes "reach (hp_step wt) (hp_start p) s" and "outcome s = Returned r"
    and "r \<noteq> ''invalidated''"
  shows "r = ''Successfully processed: '' @ input_filename p @ ''!'' \<and> progress s = 100
    \<and> activity_calls (commands s) = hp_plan wt p (task_queue s)"
  using hp_reach_inv [OF assms(1)] assms(2,3)
  by (auto simp: hp_inv_def hp_stage_def hp_plan_def)

text \<open>C16: When every activity succeeds and validation accepts, the happy-path run returns
  Successfully processed: <filename>! with progress 100.\<close>

theorem hp_happy_run:
  "map_option (\<lambda>s. (outcome s, progress s))
     (run_events (hp_step wt) (hp_start p) (hp_happy_events q))
   = Some (Returned (''Successfully processed: '' @ input_filename p @ ''!''), 100)"
  using hp_happy_run_state [of wt p q] by auto

text \<open>C17: In the happy-path class progress is always a checkpoint value and never
  decreases along a run.\<close>

theorem hp_progress_monotone:
  assumes "reach (hp_step wt) (hp_start p) s" and "reach (hp_step wt) s t"
  shows "progress s \<in> checkpoints \<and> progress s \<le> progress t"
proof
  show "progress s \<in> checkpoints"
    using hp_reach_inv [OF assms(1)] by (simp add: hp_inv_def)
  show "progress s \<le> progress t"
    using assms
    by (rule reach_monotone [where R = "\<lambda>s t. progress s \<le> progress t"])
       (auto dest: hp_reach_inv hp_step_mono)
qed

subsection \<open>Witnesses\<close>

theorem hp_validation_rejected_witness:
  "\<exists>s t. reach (hp_step ''DataPipelineWorkflowHappyPath'') (hp_start demo_params) s
     \<and> hp_step ''DataPipelineWorkflowHappyPath'' s (ActivityCompleted (PyBool False))
         = Some (t, NoReply)
     \<and> outcome t = Returned ''invalidated'' \<and> progress t = 10"
proof -
  obtain s where s: "reach (hp_step ''DataPipelineWorkflowHappyPath'') (hp_start demo_params) s"
    "pc s = AwaitValidate" "outcome s = Running"
    using hp_demo_validating by blast
  from hp_validation_rejected [OF s] s(1) show ?thesis by blast
qed

theorem hp_completed_run_witness:
  "\<exists>s. reach (hp_step ''DataPipelineWorkflowHappyPath'') (hp_start demo_params) s
     \<and> outcome s = Returned ''Successfully processed: orders.csv!''
     \<and> activity_calls (commands s) =
         hp_plan ''DataPipelineWorkflowHappyPath'' demo_params (Some ''worker-1'')"
proof -
  obtain s where s: "run_events (hp_step ''DataPipelineWorkflowHappyPath'') (hp_start demo_params)
      (hp_happy_events ''worker-1'') = Some s"
    "outcome s = Returned (''Successfully processed: '' @ input_filename demo_params @ ''!'')"
    "task_queue s = Some ''worker-1''"
    using hp_happy_run_state by blast
  have r: "reach (hp_step ''DataPipelineWorkflowHappyPath'') (hp_start demo_params) s"
    using s(1) by (rule reach_run_events)
  have o: "outcome s = Returned ''Successfully processed: orders.csv!''"
    using s(2) by (simp add: demo_params_def)
  have "''Successfully processed: orders.csv!'' \<noteq> ''invalidated''" by simp
  from hp_completed_run [OF r o this] r o s(3) show ?thesis by auto
qed

theorem hp_progress_monotone_witness:
  "\<exists>t. reach (hp_step ''DataPipelineWorkflowHappyPath'') (hp_start demo_params) (hp_start demo_params)
     \<and> reach (hp_step ''DataPipelineWorkflowHappyPath'') (hp_start demo_params) t
     \<and> progress (hp_start demo_params) \<le> progress t \<and> progress t = 100"
proof -
  obtain t where t: "run_events (hp_step ''DataPipelineWorkflowHappyPath'') (hp_start demo_params)
      (hp_happy_events ''worker-1'') = Some t" "progress t = 100"
    using hp_happy_run_state by blast
  have rt: "reach (hp_step ''DataPipelineWorkflowHappyPath'') (hp_start demo_params) t"
    using t(1) by (rule reach_run_events)
  have s: "reach (hp_step ''DataPipelineWorkflowHappyPath'') (hp_start demo_params) (hp_start demo_params)"
    by (rule reach_start)
  from hp_progress_monotone [OF s rt] s rt t(2) show ?thesis by blast
qed

end
