(* ===== verification/Workflow_Non_Recoverable.thy ===== *)
theory Workflow_Non_Recoverable
  imports Pipeline_Spec
begin

text \<open>
  \<open>src/DataPipelineWorkflowNonRecoverableFailure.py\<close>: the class
  \<open>DataPipelineWorkflowNonRecoverableFailure\<close>.  Its \<open>run\<close> is the pipeline with the
  input's validation field overwritten to \<open>"blue"\<close> before validation (line 35), a
  validate call routed to the pinned task queue (line 40), an \<open>ApplicationError\<close> on
  rejection (line 47) and a poll call with the input as its only argument (line 92).  It
  defines no signal or update handler and does not read the workflow type.
\<close>

subsection \<open>The segments of \<open>run\<close>\<close>

text \<open>\<open>__init__\<close> (lines 14--15) with the input of \<open>run\<close> (line 18).\<close>

definition nr_init :: "params \<Rightarrow> wf_state" where
  "nr_init p =
     \<lparr>pc = AwaitTaskQueue, progress = 0, load_complete_signal = False,
      load_complete_update = False, wf_input = p, task_queue = None, commands = [],
      outcome = Running\<rparr>"

text \<open>Lines 17--25: ask for a worker's task queue.\<close>

definition nr_start :: "params \<Rightarrow> wf_state" where
  "nr_start p =
     execute_activity Get_available_task_queue [] None 10 None None AwaitTaskQueue (nr_init p)"

text \<open>Lines 26--32: pin the task queue, progress 10, sleep 2 seconds.\<close>

definition nr_after_task_queue :: "string \<Rightarrow> wf_state \<Rightarrow> wf_state" where
  "nr_after_task_queue q s = sleep 2 AwaitSleep (s\<lparr>task_queue := Some q, progress := 10\<rparr>)"

text \<open>Lines 34--43: overwrite the validation field, validate on the pinned task queue.\<close>

definition nr_after_sleep :: "wf_state \<Rightarrow> wf_state" where
  "nr_after_sleep s =
     (let s1 = s\<lparr>wf_input := (wf_input s)\<lparr>validation := ''blue''\<rparr>\<rparr>
      in execute_activity Validate [ArgParams (wf_input s1)] (task_queue s1) 300 (Some 20) None
           AwaitValidate s1)"

text \<open>Lines 44--58: a rejected validation raises; otherwise progress 20 and extract.\<close>

definition nr_after_validate :: "pyval \<Rightarrow> wf_state \<Rightarrow> wf_state" where
  "nr_after_validate v s =
     (if v = PyBool False
      then wf_raise (ApplicationError ''Workflow failed due to validation''
                      (Some ''Validation Failed'')) s
      else
        (let s1 = s\<lparr>progress := 20\<rparr>
         in execute_activity Extract [ArgParams (wf_input s1)] (task_queue s1) 300 (Some 20)
              None AwaitExtract s1))"

text \<open>Lines 59--70: progress 40, then transform.\<close>

definition nr_after_extract :: "wf_state \<Rightarrow> wf_state" where
  "nr_after_extract s =
     (let s1 = s\<lparr>progress := 40\<rparr>
      in execute_activity Transform [ArgParams (wf_input s1)] (task_queue s1) 300 (Some 20)
           None AwaitTransform s1)"

text \<open>Lines 71--82: progress 60, then load.\<close>

definition nr_after_transform :: "wf_state \<Rightarrow> wf_state" where
  "nr_after_transform s =
     (let s1 = s\<lparr>progress := 60\<rparr>
      in execute_activity Load [ArgParams (wf_input s1)] (task_queue s1) 300 (Some 20)
           None AwaitLoad s1)"

text \<open>Lines 83--97: progress 80, then poll with the input alone.\<close>

definition nr_after_load :: "wf_state \<Rightarrow> wf_state" where
  "nr_after_load s =
     (let s1 = s\<lparr>progress := 80\<rparr>
      in execute_activity Poll [ArgParams (wf_input s1)] (task_queue s1) 3000
           (Some 20) (Some poll_retry_policy) AwaitPoll s1)"

text \<open>Lines 99--104: progress 100 and the result string.\<close>

definition nr_after_poll :: "wf_state \<Rightarrow> wf_state" where
  "nr_after_poll s =
     wf_return (''Successfully processed: '' @ input_filename (wf_input s) @ ''!'')
       (s\<lparr>progress := 100\<rparr>)"

subsection \<open>The instance as a step function\<close>

fun nr_step :: "(wf_state, event, reply) step_fn" where
  "nr_step s (Query n) = Some (s, progress_query s n)"
| "nr_step s (Signal n payload) = (if wf_closed s then None else Some (s, NoReply))"
| "nr_step s (Update n payload) =
     (if wf_closed s then None else Some (s, Rejected ''unknown update''))"
| "nr_step s (ActivityCompleted v) =
     (if outcome s \<noteq> Running then None
      else case pc s of
        AwaitTaskQueue \<Rightarrow>
          (case v of PyStr q \<Rightarrow> Some (nr_after_task_queue q s, NoReply) | _ \<Rightarrow> None)
      | AwaitValidate \<Rightarrow> Some (nr_after_validate v s, NoReply)
      | AwaitExtract \<Rightarrow> Some (nr_after_extract s, NoReply)
      | AwaitTransform \<Rightarrow> Some (nr_after_transform s, NoReply)
      | AwaitLoad \<Rightarrow> Some (nr_after_load s, NoReply)
      | AwaitPoll \<Rightarrow> Some (nr_after_poll s, NoReply)
      | _ \<Rightarrow> None)"
| "nr_step s (ActivityFailed m) =
     (if outcome s \<noteq> Running then None
      else case pending_activity (pc s) of
        Some a \<Rightarrow> Some (wf_raise (ActivityError a m) s, NoReply)
      | None \<Rightarrow> None)"
| "nr_step s TimerFired =
     (if outcome s = Running \<and> pc s = AwaitSleep then Some (nr_after_sleep s, NoReply)
      else None)"

subsection \<open>The run's contract\<close>

definition nr_plan :: "params \<Rightarrow> string option \<Rightarrow> act_call list" where
  "nr_plan p tq =
     [discovery_call, stage_call Validate p tq, stage_call Extract p tq,
      stage_call Transform p tq, stage_call Load p tq, poll_call [ArgParams p] tq]"

fun nr_calls_made :: "pc \<Rightarrow> nat" where
  "nr_calls_made AwaitTaskQueue = 1"
| "nr_calls_made AwaitSleep = 1"
| "nr_calls_made AwaitValidate = 2"
| "nr_calls_made AwaitExtract = 3"
| "nr_calls_made AwaitTransform = 4"
| "nr_calls_made AwaitLoad = 5"
| "nr_calls_made _ = 6"

fun nr_outcome_ok :: "params \<Rightarrow> pc \<Rightarrow> outcome \<Rightarrow> bool" where
  "nr_outcome_ok p k Running = (k \<notin> {Finished, AwaitLoadAgain, AwaitSignal, AwaitUpdate})"
| "nr_outcome_ok p k (Returned r) =
     (k = Finished \<and> r = ''Successfully processed: '' @ input_filename p @ ''!'')"
| "nr_outcome_ok p k (TaskFailed m) = False"
| "nr_outcome_ok p k (Failed e) =
     ((k = AwaitValidate \<and>
       e = ApplicationError ''Workflow failed due to validation'' (Some ''Validation Failed''))
      \<or> (\<exists>a m. e = ActivityError a m \<and> pending_activity k = Some a))"

definition nr_inv :: "params \<Rightarrow> wf_state \<Rightarrow> bool" where
  "nr_inv p s \<longleftrightarrow>
     progress s = checkpoint (pc s)
   \<and> activity_calls (commands s) =
       take (nr_calls_made (pc s)) (nr_plan (p\<lparr>validation := ''blue''\<rparr>) (task_queue s))
   \<and> search_attribute_values (commands s) = []
   \<and> wf_input s = (if stage_index (pc s) = 0 then p else p\<lparr>validation := ''blue''\<rparr>)
   \<and> (task_queue s = None \<longleftrightarrow> pc s = AwaitTaskQueue)
   \<and> nr_outcome_ok p (pc s) (outcome s)"

subsection \<open>Segment normal forms and the invariant\<close>

lemma nr_start_nf: "nr_start p = (nr_init p)\<lparr>commands := [ScheduleActivity discovery_call]\<rparr>"
  by (simp add: nr_start_def nr_init_def wf_defs discovery_call_def)

lemma nr_after_task_queue_nf: "nr_after_task_queue q s =
   s\<lparr>task_queue := Some q, progress := 10, pc := AwaitSleep, commands := commands s @ [StartTimer 2]\<rparr>"
  by (simp add: nr_after_task_queue_def wf_defs)

lemma nr_after_sleep_nf: "nr_after_sleep s =
   s\<lparr>wf_input := (wf_input s)\<lparr>validation := ''blue''\<rparr>, pc := AwaitValidate,
     commands := commands s
       @ [ScheduleActivity (stage_call Validate ((wf_input s)\<lparr>validation := ''blue''\<rparr>) (task_queue s))]\<rparr>"
  by (simp add: nr_after_sleep_def wf_defs stage_call_def Let_def)

lemma nr_after_validate_nf: "nr_after_validate v s =
   (if v = PyBool False
    then wf_raise (ApplicationError ''Workflow failed due to validation'' (Some ''Validation Failed'')) s
    else s\<lparr>progress := 20, pc := AwaitExtract,
      commands := commands s @ [ScheduleActivity (stage_call Extract (wf_input s) (task_queue s))]\<rparr>)"
  by (simp add: nr_after_validate_def wf_defs stage_call_def Let_def)

lemma nr_after_extract_nf: "nr_after_extract s =
   s\<lparr>progress := 40, pc := AwaitTransform,
     commands := commands s @ [ScheduleActivity (stage_call Transform (wf_input s) (task_queue s))]\<rparr>"
  by (simp add: nr_after_extract_def wf_defs stage_call_def Let_def)

lemma nr_after_transform_nf: "nr_after_transform s =
   s\<lparr>progress := 60, pc := AwaitLoad,
     commands := commands s @ [ScheduleActivity (stage_call Load (wf_input s) (task_queue s))]\<rparr>"
  by (simp add: nr_after_transform_def wf_defs stage_call_def Let_def)

lemma nr_after_load_nf: "nr_after_load s =
   s\<lparr>progress := 80, pc := AwaitPoll,
     commands := commands s @ [ScheduleActivity (poll_call [ArgParams (wf_input s)] (task_queue s))]\<rparr>"
  by (simp add: nr_after_load_def wf_defs poll_call_def Let_def)

lemmas nr_nf = nr_after_task_queue_nf nr_after_sleep_nf nr_after_validate_nf
  nr_after_extract_nf nr_after_transform_nf nr_after_load_nf

lemma nr_inv_start: "nr_inv p (nr_start p)"
  by (simp add: nr_inv_def nr_start_nf nr_init_def nr_plan_def)

lemma nr_inv_completed:
  assumes "nr_inv p s" and "outcome s = Running"
    and "nr_step s (ActivityCompleted v) = Some (t, r)"
  shows "nr_inv p t"
  using assms
  by (cases "pc s")
     (auto simp: nr_inv_def nr_nf nr_plan_def nr_after_poll_def wf_defs split: if_splits pyval.splits)

lemma nr_step_inv:
  assumes "nr_inv p s" and "nr_step s e = Some (t, r)"
  shows "nr_inv p t"
proof (cases e)
  case (ActivityCompleted v)
  with assms show ?thesis by (auto intro: nr_inv_completed split: if_splits)
next
  case (ActivityFailed m)
  with assms show ?thesis
    by (cases "pc s") (auto simp: nr_inv_def wf_defs split: if_splits)
next
  case TimerFired
  with assms show ?thesis by (auto simp: nr_inv_def nr_nf nr_plan_def split: if_splits)
qed (use assms in \<open>auto split: if_splits\<close>)

lemma nr_reach_inv: "reach nr_step (nr_start p) s \<Longrightarrow> nr_inv p s"
  by (rule reach_invariant [where I = "nr_inv p"]) (auto intro: nr_inv_start nr_step_inv)


lemma nr_demo_rejected:
  "\<exists>s. reach nr_step (nr_start demo_params) s
     \<and> outcome s = Failed (ApplicationError ''Workflow failed due to validation'' (Some ''Validation Failed''))"
proof -
  have "\<exists>s. run_events nr_step (nr_start demo_params)
      [ActivityCompleted (PyStr ''worker-1''), TimerFired, ActivityCompleted (PyBool False)] = Some s
    \<and> outcome s = Failed (ApplicationError ''Workflow failed due to validation'' (Some ''Validation Failed''))"
    by (simp add: nr_start_nf nr_init_def nr_nf wf_defs)
  then show ?thesis by (blast intro: reach_run_events)
qed

subsection \<open>Properties of the non-recoverable-failure class\<close>

text \<open>C18: In the non-recoverable-failure class an ApplicationError ending the run is the
  validation failure caused by CustomException Validation Failed; progress is then 10 (the
  spec says 20), and the only calls issued were discovery and a validate call whose input
  has validation overwritten to blue and which, unlike the spec's routing rule and the
  scenarios class, is routed to the pinned task queue.\<close>

theorem nr_rejection:
  assumes "reach nr_step (nr_start p) s" and "outcome s = Failed (ApplicationError m c)"
  shows "m = ''Workflow failed due to validation'' \<and> c = Some ''Validation Failed''
    \<and> progress s = 10 \<and> task_queue s \<noteq> None
    \<and> activity_calls (commands s) =
        [discovery_call, stage_call Validate (p\<lparr>validation := ''blue''\<rparr>) (task_queue s)]"
  using nr_reach_inv [OF assms(1)] assms(2)
  by (cases "pc s") (auto simp: nr_inv_def nr_plan_def)

subsection \<open>Witnesses\<close>

theorem nr_rejection_witness:
  "\<exists>s. reach nr_step (nr_start demo_params) s \<and> progress s = 10
     \<and> activity_calls (commands s) =
        [discovery_call, stage_call Validate (demo_params\<lparr>validation := ''blue''\<rparr>) (task_queue s)]"
proof -
  obtain s where s: "reach nr_step (nr_start demo_params) s"
    "outcome s = Failed (ApplicationError ''Workflow failed due to validation'' (Some ''Validation Failed''))"
    using nr_demo_rejected by blast
  from nr_rejection [OF s] s(1) show ?thesis by blast
qed

end
