(* ===== verification/Variant_Equivalence.thy ===== *)
theory Variant_Equivalence
  imports Workflow_Scenarios Workflow_Happy_Path Workflow_Non_Recoverable
begin

text \<open>
  The three workflow classes of the repository as variants of one pipeline.  The
  scenarios class at workflow type \<open>DataPipelineNonRecoverableFailure\<close> is compared with
  the class \<open>DataPipelineWorkflowNonRecoverableFailure\<close> (\<open>failure_sim\<close>), and at a
  workflow type that selects no scenario (\<open>plain_variant\<close>) with the class
  \<open>DataPipelineWorkflowHappyPath\<close> (\<open>happy_sim\<close>).  Each comparison is a lock-step
  simulation: from related states both classes accept the same runtime events and reach
  related states, so by \<open>run_events_lockstep\<close> they agree on every event sequence.  The
  relations record where the classes differ: the scenarios class keeps the signal and
  update flags the happy path has no handlers for, the failure class's validate call
  goes to the pinned queue, and a rejected validation fails the scenarios run where the
  happy path returns \<open>"invalidated"\<close>.
\<close>

subsection \<open>The scenarios class against the dedicated failure class\<close>

definition failure_sim :: "wf_state \<Rightarrow> wf_state \<Rightarrow> bool" where
  "failure_sim s t \<longleftrightarrow>
     pc s = pc t \<and> progress s = progress t \<and> outcome s = outcome t \<and> wf_input s = wf_input t
   \<and> task_queue s = task_queue t
   \<and> map call_activity (activity_calls (commands s)) = map call_activity (activity_calls (commands t))
   \<and> pc s \<notin> {AwaitLoadAgain, AwaitSignal, AwaitUpdate}"

subsection \<open>The scenarios class against the happy-path class\<close>

text \<open>A workflow type that none of the six scenario constants names: the scenarios class
  then runs the base pipeline (lines 48, 51, 100, 119, 134, 143 and 164 all test false).\<close>

definition plain_variant :: "string \<Rightarrow> bool" where
  "plain_variant wt \<longleftrightarrow> wt \<notin> {BUG, FAILURE, SIGNAL, UPDATE, VISIBILITY, IDEMPOTENCY}"

text \<open>The failure a rejected validation raises in the scenarios class (lines 63--64).\<close>

definition validation_error :: wf_failure where
  "validation_error = ApplicationError ''Workflow failed due to validation'' (Some ''Validation Failed'')"

definition happy_sim :: "wf_state \<Rightarrow> wf_state \<Rightarrow> bool" where
  "happy_sim s t \<longleftrightarrow>
     progress s = progress t \<and> wf_input s = wf_input t \<and> task_queue s = task_queue t
   \<and> activity_calls (commands s) = activity_calls (commands t)
   \<and> pc s \<notin> {AwaitLoadAgain, AwaitSignal, AwaitUpdate}
   \<and> (pc s = pc t \<and> outcome s = outcome t
      \<or> outcome s = Failed validation_error \<and> outcome t = Returned ''invalidated'')"

lemma failure_sim_start: "failure_sim (scn_start p) (nr_start p)"
  by (simp add: failure_sim_def scn_start_nf nr_start_nf scn_init_def nr_init_def)

lemma failure_sim_step:
  assumes "failure_sim s t"
  shows "rel_option (\<lambda>a b. failure_sim (fst a) (fst b)) (scn_step FAILURE s e) (nr_step t e)"
proof (cases e)
  case (ActivityCompleted v)
  with assms show ?thesis
    by (cases "pc s")
       (auto simp: failure_sim_def scn_nf nr_nf scn_tag_def scn_effective_input_def
          scn_finish_nf scn_message_def nr_after_poll_def stage_call_def poll_call_def wf_defs
          split: pyval.splits)
next
  case TimerFired
  with assms show ?thesis
    by (cases "pc s")
       (auto simp: failure_sim_def scn_nf nr_nf scn_tag_def scn_effective_input_def
          stage_call_def wf_defs)
next
  case (ActivityFailed m)
  with assms show ?thesis
    by (auto simp: failure_sim_def wf_defs split: option.splits)
next
  case (Signal n x)
  with assms show ?thesis
    by (auto simp: failure_sim_def scn_wake_def scn_load_complete_signal_def wf_closed_def)
next
  case (Update n x)
  with assms show ?thesis
    by (auto simp: failure_sim_def scn_wake_def scn_load_complete_update_def wf_closed_def)
qed (use assms in \<open>auto simp: failure_sim_def\<close>)

lemma plain_variant_simps [simp]:
  assumes "plain_variant wt"
  shows "scn_tag wt v = []" "scn_effective_input wt p = p"
    "BUG \<noteq> wt" "FAILURE \<noteq> wt" "SIGNAL \<noteq> wt" "UPDATE \<noteq> wt" "VISIBILITY \<noteq> wt"
    "IDEMPOTENCY \<noteq> wt"
  using assms by (auto simp: plain_variant_def scn_tag_def scn_effective_input_def)

lemma happy_sim_start: "happy_sim (scn_start p) (hp_start p)"
  by (simp add: happy_sim_def scn_start_nf hp_start_nf scn_init_def hp_init_def)

lemma happy_sim_closed: "happy_sim s t \<Longrightarrow> wf_closed s \<longleftrightarrow> wf_closed t"
  by (auto simp: happy_sim_def wf_closed_def validation_error_def split: outcome.splits)

lemma happy_sim_step:
  assumes w: "plain_variant wt" and r: "happy_sim s t"
  shows "rel_option (\<lambda>a b. happy_sim (fst a) (fst b)) (scn_step wt s e) (hp_step wt t e)"
proof (cases e)
  case (ActivityCompleted v)
  with r w show ?thesis
    by (cases "pc s")
       (auto simp: happy_sim_def scn_nf hp_nf hp_after_poll_def scn_message_def
          validation_error_def wf_defs split: pyval.splits)
next
  case TimerFired
  with r w show ?thesis
    by (cases "pc s") (auto simp: happy_sim_def scn_nf hp_nf validation_error_def wf_defs)
next
  case (ActivityFailed m)
  with r show ?thesis
    by (auto simp: happy_sim_def validation_error_def wf_defs split: option.splits)
next
  case (Signal n x)
  with r happy_sim_closed [OF r] show ?thesis
    by (auto simp: happy_sim_def scn_wake_def scn_load_complete_signal_def)
next
  case (Update n x)
  with r happy_sim_closed [OF r] show ?thesis
    by (auto simp: happy_sim_def scn_wake_def scn_load_complete_update_def)
qed (use r in \<open>auto simp: happy_sim_def\<close>)

text \<open>C19: Selecting the non-recoverable-failure behaviour in the scenarios class (workflow
  type DataPipelineNonRecoverableFailure) and running the dedicated class
  DataPipelineWorkflowNonRecoverableFailure give the same behaviour on every sequence of
  runtime events: both accept exactly the same events, and after each they agree on the
  await point, the progress, the outcome, the (blue-overwritten) input, the task queue
  and the sequence of activities scheduled.\<close>

theorem failure_variant_equivalence:
  "rel_option failure_sim
     (run_events (scn_step FAILURE) (scn_start p) es) (run_events nr_step (nr_start p) es)"
  by (rule run_events_lockstep [OF failure_sim_start failure_sim_step])

text \<open>C23: At a workflow type that selects no scenario, the scenarios class and the happy-path
  class accept exactly the same runtime events and, after every event sequence, agree on
  the progress, the input, the task queue and the activities scheduled, and on the await
  point and outcome, except that where validation rejects the input the scenarios run has
  failed with the validation ApplicationError and the happy-path run has returned
  "invalidated".\<close>

theorem happy_variant_equivalence:
  assumes "plain_variant wt"
  shows "rel_option happy_sim
     (run_events (scn_step wt) (scn_start p) es) (run_events (hp_step wt) (hp_start p) es)"
  by (rule run_events_lockstep [OF happy_sim_start happy_sim_step [OF assms]])

subsection \<open>Witnesses\<close>

theorem happy_variant_equivalence_witness:
  "plain_variant ''DataPipelineWorkflowHappyPath''
   \<and> rel_option happy_sim
      (run_events (scn_step ''DataPipelineWorkflowHappyPath'') (scn_start demo_params)
         [ActivityCompleted (PyStr ''worker-1''), TimerFired, ActivityCompleted (PyBool False)])
      (run_events (hp_step ''DataPipelineWorkflowHappyPath'') (hp_start demo_params)
         [ActivityCompleted (PyStr ''worker-1''), TimerFired, ActivityCompleted (PyBool False)])"
proof
  show p: "plain_variant ''DataPipelineWorkflowHappyPath''"
    by (simp add: plain_variant_def BUG_def FAILURE_def SIGNAL_def UPDATE_def VISIBILITY_def
        IDEMPOTENCY_def)
  show "rel_option happy_sim
      (run_events (scn_step ''DataPipelineWorkflowHappyPath'') (scn_start demo_params)
         [ActivityCompleted (PyStr ''worker-1''), TimerFired, ActivityCompleted (PyBool False)])
      (run_events (hp_step ''DataPipelineWorkflowHappyPath'') (hp_start demo_params)
         [ActivityCompleted (PyStr ''worker-1''), TimerFired, ActivityCompleted (PyBool False)])"
    by (rule happy_variant_equivalence [OF p])
qed

end
