(* ===== verification/Await_Points.thy ===== *)
theory Await_Points
  imports Workflow_Scenarios Workflow_Happy_Path Workflow_Non_Recoverable
begin

text \<open>
  The link between a state's await point and its command history: a running instance is
  not finished, and it is suspended at the await point of the activity it scheduled last
  (\<open>state_typed\<close>).  Each class's invariant implies it.  The stage-failure properties of
  the root theory use it to name the call whose retry loop a failure comes from.
\<close>

definition state_typed :: "wf_state \<Rightarrow> bool" where
  "state_typed s \<longleftrightarrow>
     (outcome s = Running \<longrightarrow> pc s \<noteq> Finished
       \<and> (case pending_activity (pc s) of None \<Rightarrow> True
          | Some a \<Rightarrow> activity_calls (commands s) \<noteq> []
                    \<and> call_activity (last (activity_calls (commands s))) = a))"

lemma scn_inv_typed: "scn_inv wt p s \<Longrightarrow> state_typed s"
  by (cases "pc s")
     (auto simp: scn_inv_def state_typed_def scn_plan_def stage_call_def poll_call_def
        discovery_call_def take_Cons' split: if_splits)

lemma hp_inv_typed: "hp_inv wt p s \<Longrightarrow> state_typed s"
  by (cases "pc s")
     (auto simp: hp_inv_def hp_stage_def state_typed_def hp_plan_def stage_call_def
        poll_call_def discovery_call_def take_Cons')

lemma nr_inv_typed: "nr_inv p s \<Longrightarrow> state_typed s"
  by (cases "pc s")
     (auto simp: nr_inv_def state_typed_def nr_plan_def stage_call_def poll_call_def
        discovery_call_def take_Cons')

end
