(* ===== verification/Payload_Codec.thy ===== *)
theory Payload_Codec
  imports Workflow_Scenarios
begin

text \<open>
  The input of the dynamic scenarios class.  Being registered with \<open>dynamic=True\<close>, its
  \<open>run\<close> receives raw payloads and decodes the first one itself
  (\<open>src/DataPipelineWorkflowScenarios.py\<close> lines 29--30:
  \<open>workflow.payload_converter().from_payload(args[0].payload, DataPipelineParams)\<close>),
  where the two other classes receive a typed \<open>DataPipelineParams\<close>.  The payload was
  produced by the client through the same default converter, whose JSON part is
  \<open>json.dumps(value, separators=(",", ":"), sort_keys=True)\<close> on the dataclass's field
  dictionary and \<open>json.loads\<close> back.  The converter belongs to the SDK, not to the
  repository, and is modelled here from its documented behaviour:
  \<^item> \<open>json_escape_char\<close>/\<open>json_string\<close>: Python's ASCII string encoder
    (\<open>py_encode_basestring_ascii\<close>): quote and backslash escaped, the five short escapes
    \<open>\b \f \n \r \t\<close>, every other character outside space..tilde as \<open>\u00xx\<close> in
    lower-case hex.  Characters are Latin-1 code points (Isabelle's \<^typ>\<open>char\<close>).
  \<^item> \<open>parse_json_chars\<close>: the strict string scanner of \<open>json.loads\<close>
    (\<open>py_scanstring\<close>): raw control characters are an error, the escapes are the eight
    short ones and \<open>\uXXXX\<close> in either case, a code point beyond Latin-1 is not
    representable (\<open>None\<close>).
  \<^item> \<open>parse_members\<close>/\<open>decode_params\<close>: a JSON object of string members without
    white space, in any order, a repeated key keeping its last value (as a Python dict
    does), read into the two fields of \<open>DataPipelineParams\<close>.  White space and
    non-string members, which the client's encoder never produces, are not modelled.
  \<open>scn_start_payload\<close> is lines 29--30 with their two failure branches: no argument
  (\<open>args[0]\<close> raises \<open>IndexError\<close>) and an undecodable payload.  Either exception is
  not an \<open>ApplicationError\<close>, so the workflow task fails before the first activity.
\<close>

subsection \<open>Encoder\<close>

definition hex_digit :: "nat \<Rightarrow> char" where
  "hex_digit n = (if n < 10 then char_of (48 + n) else char_of (87 + n))"

definition json_escape_char :: "char \<Rightarrow> string" where
  "json_escape_char c =
     (if c = CHR 0x22 then [CHR 0x5C, CHR 0x22]
      else if c = CHR 0x5C then [CHR 0x5C, CHR 0x5C]
      else if c = CHR 0x08 then [CHR 0x5C, CHR ''b'']
      else if c = CHR 0x0C then [CHR 0x5C, CHR ''f'']
      else if c = CHR 0x0A then [CHR 0x5C, CHR ''n'']
      else if c = CHR 0x0D then [CHR 0x5C, CHR ''r'']
      else if c = CHR 0x09 then [CHR 0x5C, CHR ''t'']
      else if of_char c < (32::nat) \<or> (126::nat) < of_char c
      then [CHR 0x5C, CHR ''u'', CHR ''0'', CHR ''0'',
            hex_digit (of_char c div 16), hex_digit (of_char c mod 16)]
      else [c])"

definition json_string :: "string \<Rightarrow> string" where
  "json_string s = CHR 0x22 # concat (map json_escape_char s) @ [CHR 0x22]"

subsection \<open>Decoder\<close>

definition hex_val :: "char \<Rightarrow> nat option" where
  "hex_val c =
     (let n = of_char c :: nat
      in if 48 \<le> n \<and> n \<le> 57 then Some (n - 48)
         else if 97 \<le> n \<and> n \<le> 102 then Some (n - 87)
         else if 65 \<le> n \<and> n \<le> 70 then Some (n - 55)
         else None)"

definition simple_unescape :: "char \<Rightarrow> char option" where
  "simple_unescape d =
     (if d = CHR 0x22 then Some (CHR 0x22)
      else if d = CHR 0x5C then Some (CHR 0x5C)
      else if d = CHR ''/'' then Some (CHR ''/'')
      else if d = CHR ''b'' then Some (CHR 0x08)
      else if d = CHR ''f'' then Some (CHR 0x0C)
      else if d = CHR ''n'' then Some (CHR 0x0A)
      else if d = CHR ''r'' then Some (CHR 0x0D)
      else if d = CHR ''t'' then Some (CHR 0x09)
      else None)"

definition hex4 :: "char \<Rightarrow> char \<Rightarrow> char \<Rightarrow> char \<Rightarrow> char option" where
  "hex4 a b c d =
     (case (hex_val a, hex_val b, hex_val c, hex_val d) of
        (Some w, Some x, Some y, Some z) \<Rightarrow>
          (let n = ((w * 16 + x) * 16 + y) * 16 + z in if n < 256 then Some (char_of n) else None)
      | _ \<Rightarrow> None)"

fun parse_json_chars :: "string \<Rightarrow> (string \<times> string) option" where
  "parse_json_chars [] = None"
| "parse_json_chars [c] = (if c = CHR 0x22 then Some ([], []) else None)"
| "parse_json_chars (c # d # cs) =
     (if c = CHR 0x22 then Some ([], d # cs)
      else if c = CHR 0x5C then
        (if d = CHR ''u'' then
           (case cs of
              a # b # e # f # cs' \<Rightarrow>
                (case hex4 a b e f of
                   Some x \<Rightarrow> map_option (apfst (Cons x)) (parse_json_chars cs')
                 | None \<Rightarrow> None)
            | _ \<Rightarrow> None)
         else
           (case simple_unescape d of
              Some x \<Rightarrow> map_option (apfst (Cons x)) (parse_json_chars cs)
            | None \<Rightarrow> None))
      else if of_char c < (32::nat) then None
      else map_option (apfst (Cons c)) (parse_json_chars (d # cs)))"

definition parse_json_string :: "string \<Rightarrow> (string \<times> string) option" where
  "parse_json_string s = (case s of c # cs \<Rightarrow> if c = CHR 0x22 then parse_json_chars cs else None | [] \<Rightarrow> None)"

function parse_members :: "string \<Rightarrow> (string \<times> string) list option" where
  "parse_members s =
     (case parse_json_string s of
        None \<Rightarrow> None
      | Some (k, r1) \<Rightarrow>
          (case r1 of
             [] \<Rightarrow> None
           | c # r2 \<Rightarrow>
               if c \<noteq> CHR '':'' then None
               else
                 (case parse_json_string r2 of
                    None \<Rightarrow> None
                  | Some (v, r3) \<Rightarrow>
                      (case r3 of
                         [] \<Rightarrow> None
                       | d # r4 \<Rightarrow>
                           if d = CHR '','' then map_option (Cons (k, v)) (parse_members r4)
                           else if d = CHR ''}'' \<and> r4 = [] then Some [(k, v)]
                           else None))))"
  by pat_completeness auto
termination
proof (relation "measure length", goal_cases)
  case 1
  show ?case by simp
next
  case 2
  have chars: "length r < length s" if "parse_json_chars s = Some (v, r)" for s v r
    using that
    by (induction s arbitrary: v rule: parse_json_chars.induct)
       (fastforce split: if_splits option.splits list.splits)+
  have str: "length r < length s" if "parse_json_string s = Some (v, r)" for s v r
    using that by (auto simp: parse_json_string_def split: list.splits if_splits dest!: chars)
  from 2 show ?case by (auto dest!: str)
qed

definition json_params :: "params \<Rightarrow> string" where
  "json_params p =
     ''{'' @ json_string ''input_filename'' @ '':'' @ json_string (input_filename p)
       @ '','' @ json_string ''validation'' @ '':'' @ json_string (validation p) @ ''}''"

definition decode_params :: "string \<Rightarrow> params option" where
  "decode_params b =
     (case b of
        c # r \<Rightarrow>
          if c \<noteq> CHR ''{'' then None
          else
            (case parse_members r of
               None \<Rightarrow> None
             | Some ms \<Rightarrow>
                 (case (map_of (rev ms) ''input_filename'', map_of (rev ms) ''validation'') of
                    (Some f, Some v) \<Rightarrow> Some \<lparr>input_filename = f, validation = v\<rparr>
                  | _ \<Rightarrow> None))
      | [] \<Rightarrow> None)"

subsection \<open>The dynamic workflow's input (lines 29--30)\<close>

datatype start_error = IndexError | DecodeError

definition scn_start_payload :: "string list \<Rightarrow> start_error + wf_state" where
  "scn_start_payload args =
     (case args of
        [] \<Rightarrow> Inl IndexError
      | a # _ \<Rightarrow> (case decode_params a of None \<Rightarrow> Inl DecodeError | Some p \<Rightarrow> Inr (scn_start p)))"

subsection \<open>Round trips\<close>

lemma hex_digit_val: "k < 16 \<Longrightarrow> hex_val (hex_digit k) = Some k"
proof -
  assume "k < 16"
  then have "k \<in> {0..<16}" by simp
  also have "{0..<16} = {0::nat, 1, 2, 3, 4, 5, 6, 7, 8, 9, 10, 11, 12, 13, 14, 15}" by auto arith
  finally show ?thesis
    by (auto simp: hex_digit_def hex_val_def Let_def)
qed

lemma parse_json_chars_escape:
  assumes "t \<noteq> []"
  shows "parse_json_chars (json_escape_char c @ t) = map_option (apfst (Cons c)) (parse_json_chars t)"
proof -
  obtain d ts where t: "t = d # ts" using assms by (cases t) auto
  let ?n = "of_char c :: nat"
  have n: "?n < 256" by (rule nat_of_char_less_256)
  have h: "hex4 (CHR ''0'') (CHR ''0'') (hex_digit (?n div 16)) (hex_digit (?n mod 16)) = Some c"
  proof -
    have d: "?n div 16 < 16" using n by (intro less_mult_imp_div_less) simp
    have m: "?n mod 16 < 16" by simp
    have z: "hex_val (CHR ''0'') = Some 0" by (simp add: hex_val_def)
    have "(?n div 16) * 16 + ?n mod 16 = ?n" by simp
    then show ?thesis
      using n by (simp add: hex4_def hex_digit_val [OF d] hex_digit_val [OF m] z Let_def)
  qed
  show ?thesis
    using h by (simp add: t json_escape_char_def simple_unescape_def)
qed

lemma parse_json_string_roundtrip:
  "parse_json_chars (concat (map json_escape_char s) @ CHR 0x22 # rest) = Some (s, rest)"
  by (induction s) (simp_all add: parse_json_chars_escape del: parse_json_chars.simps(3), cases rest, simp_all)

lemma parse_json_string_of: "parse_json_string (json_string s @ rest) = Some (s, rest)"
  using parse_json_string_roundtrip [of s rest] by (simp add: parse_json_string_def json_string_def)

text \<open>The payload converter round trip: decoding the JSON the client's converter makes
  of a DataPipelineParams gives back the same params, escapes included.\<close>

lemma decode_json_params: "decode_params (json_params p) = Some p"
  by (simp add: decode_params_def json_params_def parse_json_string_of
        parse_members.simps [of "json_string s @ rest" for s rest])

text \<open>C24: Round trip through the dynamic workflow's payload decoding: the scenarios workflow
  started with the client's JSON encoding of an input as its first argument, for every
  file name and validation value over Latin-1 (escapes included), starts exactly as the
  typed workflow would on that input; started with no argument it fails at args[0] with
  an IndexError before any activity.\<close>

theorem scn_start_payload_roundtrip:
  "scn_start_payload (json_params p # args) = Inr (scn_start p) \<and> scn_start_payload [] = Inl IndexError"
  by (simp add: scn_start_payload_def decode_json_params)

end
