(* ===== verification/Workflow_Interleavings.thy ===== *)
theory Workflow_Interleavings
  imports Workflow_Scenarios
begin

text \<open>
  Orderings of external events the scenarios class has to handle.  A signal or update
  is delivered by the runtime between two activations, at any point of the run, not
  only while the gate waits: its handler (lines 172--179) sets the flag at once, and the
  gate's \<open>wait_condition\<close> (lines 136 and 145) finds the flag already set and goes on
  without starting its 60 second timer.  \<open>insert_at i e es\<close> delivers \<open>e\<close> after the
  first \<open>i\<close> events of \<open>es\<close>; \<open>pre_gate_events\<close> are the cooperative results up to
  the first load.  The update handler is registered for every workflow type, so an update
  to a run whose gate waits for the signal is acknowledged and has no effect.
\<close>

definition pre_gate_events :: "string \<Rightarrow> event list" where
  "pre_gate_events q =
     [ActivityCompleted (PyStr q), TimerFired, ActivityCompleted (PyBool True),
      ActivityCompleted (PyStr ''extracted''), ActivityCompleted (PyStr ''transformed''),
      ActivityCompleted (PyStr ''loaded'')]"

definition insert_at :: "nat \<Rightarrow> 'a \<Rightarrow> 'a list \<Rightarrow> 'a list" where
  "insert_at i x xs = take i xs @ x # drop i xs"

lemma upto_six: "i \<le> 6 \<Longrightarrow> i = 0 \<or> i = 1 \<or> i = 2 \<or> i = 3 \<or> i = 4 \<or> i = 5 \<or> i = (6::nat)"
  by auto

lemmas interleave_simps = insert_at_def pre_gate_events_def scn_start_nf scn_init_def scn_nf
  scn_wake_def scn_load_complete_signal_def scn_load_complete_update_def scn_message_def scn_tag_def wf_defs

text \<open>C25: In the signal and update scenarios the confirmation may arrive at any point
  before or at the gate: delivered after any prefix of the run up to the gate (discovery,
  sleep, validate, extract, transform, load), the run returns the success string with
  progress 100, and when it arrived before the gate no 60 second timer is ever
  started.\<close>

theorem scn_early_confirmation:
  assumes "i \<le> 6"
  shows "(\<exists>t. run_events (scn_step SIGNAL) (scn_start p)
            (insert_at i (Signal ''load_complete_signal'' x) (pre_gate_events q)) = Some t
          \<and> outcome t = Returned (scn_message p) \<and> progress t = 100
          \<and> (i < 6 \<longrightarrow> StartTimer 60 \<notin> set (commands t)))
       \<and> (\<exists>t. run_events (scn_step UPDATE) (scn_start p)
            (insert_at i (Update ''load_complete_update'' x) (pre_gate_events q)) = Some t
          \<and> outcome t = Returned (scn_message p) \<and> progress t = 100
          \<and> (i < 6 \<longrightarrow> StartTimer 60 \<notin> set (commands t)))"
  using upto_six [OF assms] by (elim disjE) (simp_all add: interleave_simps)

text \<open>C26: The two confirmation channels are separate: while a signal-scenario run waits
  at its gate, a load_complete_update update is acknowledged with Workflow update
  successful yet leaves the run waiting at progress 80, and the gate's timer then fails
  the run with Load did not complete before timeout.\<close>

theorem scn_wrong_channel_ignored:
  assumes "reach (scn_step SIGNAL) (scn_start p) s" and "pc s = AwaitSignal"
    and "outcome s = Running"
  shows "\<exists>t u. scn_step SIGNAL s (Update ''load_complete_update'' x)
            = Some (t, UpdateResult ''Workflow update successful'')
     \<and> pc t = AwaitSignal \<and> outcome t = Running \<and> progress t = 80
     \<and> scn_step SIGNAL t TimerFired = Some (u, NoReply)
     \<and> outcome u = Failed (ApplicationError ''Load did not complete before timeout'' None)"
  using scn_reach_inv [OF assms(1)] assms(2,3)
  by (auto simp: scn_inv_def scn_wake_def scn_load_complete_update_def scn_gate_timeout_def wf_defs)

subsection \<open>Witnesses\<close>

theorem scn_early_confirmation_witness:
  "\<exists>t. run_events (scn_step SIGNAL) (scn_start demo_params)
      (insert_at 2 (Signal ''load_complete_signal'' ''done'') (pre_gate_events ''worker-1'')) = Some t
    \<and> outcome t = Returned (scn_message demo_params) \<and> StartTimer 60 \<notin> set (commands t)"
  using scn_early_confirmation [of 2 demo_params "''done''" "''worker-1''"] by auto

theorem scn_wrong_channel_ignored_witness:
  "\<exists>s t u. run_events (scn_step SIGNAL) (scn_start demo_params) (pre_gate_events ''worker-1'') = Some s
     \<and> scn_step SIGNAL s (Update ''load_complete_update'' ''done'')
         = Some (t, UpdateResult ''Workflow update successful'')
     \<and> pc t = AwaitSignal \<and> scn_step SIGNAL t TimerFired = Some (u, NoReply)
     \<and> outcome u = Failed (ApplicationError ''Load did not complete before timeout'' None)"
proof -
  have "\<exists>s. run_events (scn_step SIGNAL) (scn_start demo_params) (pre_gate_events ''worker-1'') = Some s
      \<and> pc s = AwaitSignal \<and> outcome s = Running"
    by (simp add: interleave_simps)
  then obtain s where r: "run_events (scn_step SIGNAL) (scn_start demo_params) (pre_gate_events ''worker-1'') = Some s"
    and k: "pc s = AwaitSignal" and o: "outcome s = Running" by blast
  from scn_wrong_channel_ignored [OF reach_run_events [OF r] k o, of "''done''"] r
  show ?thesis by blast
qed

end
