(* ===== verification/Execution_Spec.thy ===== *)
theory Execution_Spec
  imports Workflow_Scenarios Workflow_Happy_Path Workflow_Non_Recoverable
begin

text \<open>
  The abstract specification of an orchestration instance's execution state (spec
  section 3, ExecutionState and TerminalResult; section 7).  The state is the progress
  percentage, the two human-confirmation flags and the terminal result.  Its operations
  are: reaching a checkpoint, which must be one of the seven values and may not lower
  progress; setting either flag; and terminating, where a success requires progress
  100.  Nothing changes once the result is set.  \<open>exec_view\<close> reads the abstract state
  off a workflow state: \<open>_progress\<close>, the two flags, and the outcome as a terminal result.
  A task failure is not terminal: the runtime retries the task.  The refinement shows
  that every reachable state of each of the three classes is seen as a reachable state
  of the specification.  Each concrete step is matched by at most four abstract ones
  (\<open>exec_reach_upto\<close>), and the matching uses the class invariants.
\<close>

datatype terminal_result = TSuccess string | TInvalidated | TFailed string

record exec_state =
  x_progress :: int
  x_signal :: bool
  x_update :: bool
  x_result :: "terminal_result option"

datatype exec_op = Checkpoint int | SignalReceived | UpdateReceived | Terminate terminal_result

definition exec_init :: exec_state where
  "exec_init = \<lparr>x_progress = 0, x_signal = False, x_update = False, x_result = None\<rparr>"

fun exec_step :: "(exec_state, exec_op, unit) step_fn" where
  "exec_step x (Checkpoint n) =
     (if x_result x = None \<and> n \<in> checkpoints \<and> x_progress x \<le> n
      then Some (x\<lparr>x_progress := n\<rparr>, ()) else None)"
| "exec_step x SignalReceived =
     (if x_result x = None then Some (x\<lparr>x_signal := True\<rparr>, ()) else None)"
| "exec_step x UpdateReceived =
     (if x_result x = None then Some (x\<lparr>x_update := True\<rparr>, ()) else None)"
| "exec_step x (Terminate r) =
     (if x_result x = None \<and> (\<forall>m. r = TSuccess m \<longrightarrow> x_progress x = 100)
      then Some (x\<lparr>x_result := Some r\<rparr>, ()) else None)"

fun terminal_of :: "outcome \<Rightarrow> terminal_result option" where
  "terminal_of Running = None"
| "terminal_of (TaskFailed m) = None"
| "terminal_of (Returned r) = Some (if r = ''invalidated'' then TInvalidated else TSuccess r)"
| "terminal_of (Failed (ApplicationError m c)) = Some (TFailed m)"
| "terminal_of (Failed (ActivityError a m)) = Some (TFailed m)"

definition exec_view :: "wf_state \<Rightarrow> exec_state" where
  "exec_view s =
     \<lparr>x_progress = progress s, x_signal = load_complete_signal s,
      x_update = load_complete_update s, x_result = terminal_of (outcome s)\<rparr>"

text \<open>What the specification promises between two states of one run: the later state is
  reachable from the earlier one by specification steps, so progress has not decreased,
  a confirmation flag once set stays set, and a state with a result is unchanged.\<close>

definition exec_follows :: "exec_state \<Rightarrow> exec_state \<Rightarrow> bool" where
  "exec_follows x y \<longleftrightarrow>
     reach exec_step x y \<and> x_progress x \<le> x_progress y
   \<and> (x_signal x \<longrightarrow> x_signal y) \<and> (x_update x \<longrightarrow> x_update y)
   \<and> (x_result x \<noteq> None \<longrightarrow> y = x)"

definition exec_ok :: "wf_state \<Rightarrow> wf_state \<Rightarrow> bool" where
  "exec_ok s t \<longleftrightarrow>
     (if wf_closed s then t = s
      else progress s \<le> progress t \<and> progress t \<in> checkpoints
        \<and> (load_complete_signal s \<longrightarrow> load_complete_signal t)
        \<and> (load_complete_update s \<longrightarrow> load_complete_update t)
        \<and> (\<forall>m. terminal_of (outcome t) = Some (TSuccess m) \<longrightarrow> progress t = 100))"

lemma terminal_of_closed: "terminal_of (outcome s) = None \<longleftrightarrow> \<not> wf_closed s"
  by (cases "outcome s" rule: terminal_of.cases) (simp_all add: wf_closed_def)

lemma exec_reach_upto:
  assumes "x_result x = None" and "x_progress x \<le> x_progress y" and "x_progress y \<in> checkpoints"
    and "x_signal x \<longrightarrow> x_signal y" and "x_update x \<longrightarrow> x_update y"
    and "\<forall>m. x_result y = Some (TSuccess m) \<longrightarrow> x_progress y = 100"
  shows "reach exec_step x y"
proof -
  define x1 where "x1 = x\<lparr>x_progress := x_progress y\<rparr>"
  define x2 where "x2 = x1\<lparr>x_signal := x_signal y\<rparr>"
  define x3 where "x3 = x2\<lparr>x_update := x_update y\<rparr>"
  have r1: "reach exec_step x x1"
    using assms(1-3) reach_step [OF reach.reach_start, of exec_step x "Checkpoint (x_progress y)"]
    by (simp add: x1_def)
  have r2: "reach exec_step x x2"
  proof (cases "x_signal y = x_signal x1")
    case True
    then have "x2 = x1" by (simp add: x2_def)
    with r1 show ?thesis by simp
  next
    case False
    with assms(4) have "x_signal y" by (simp add: x1_def)
    with r1 assms(1) show ?thesis
      by (auto simp: x2_def x1_def intro: reach_step [where e = SignalReceived])
  qed
  have r3: "reach exec_step x x3"
  proof (cases "x_update y = x_update x2")
    case True
    then have "x3 = x2" by (simp add: x3_def)
    with r2 show ?thesis by simp
  next
    case False
    with assms(5) have "x_update y" by (simp add: x2_def x1_def)
    with r2 assms(1) show ?thesis
      by (auto simp: x3_def x2_def x1_def intro: reach_step [where e = UpdateReceived])
  qed
  show ?thesis
  proof (cases "x_result y")
    case None
    then have "x3 = y" using assms(1) by (simp add: x3_def x2_def x1_def)
    with r3 show ?thesis by simp
  next
    case (Some v)
    have "exec_step x3 (Terminate v) = Some (y, ())"
      using assms(1,6) Some by (simp add: x3_def x2_def x1_def)
    with r3 show ?thesis by (rule reach_step)
  qed
qed

lemma exec_ok_reach: "exec_ok s t \<Longrightarrow> reach exec_step (exec_view s) (exec_view t)"
  by (cases "wf_closed s")
     (auto simp: exec_ok_def exec_view_def terminal_of_closed reach.reach_start
        intro!: exec_reach_upto)

lemma scn_step_flags:
  assumes "scn_step wt s e = Some (t, r)"
  shows "(load_complete_signal s \<longrightarrow> load_complete_signal t)
    \<and> (load_complete_update s \<longrightarrow> load_complete_update t)"
  using assms
  by (cases e; cases "pc s")
     (auto simp: scn_nf scn_wake_def scn_load_complete_signal_def scn_load_complete_update_def
        wf_defs split: if_splits pyval.splits option.splits)

lemma scn_exec_ok:
  assumes "reach (scn_step wt) (scn_start p) s" and "scn_step wt s e = Some (t, r)"
  shows "exec_ok s t"
proof -
  have i: "scn_inv wt p s" by (rule scn_reach_inv [OF assms(1)])
  then have "scn_inv wt p t" using assms(2) by (rule scn_step_inv)
  then have c: "progress t \<in> checkpoints"
    and d: "\<forall>m. terminal_of (outcome t) = Some (TSuccess m) \<longrightarrow> progress t = 100"
    by (auto simp: scn_inv_def elim!: terminal_of.elims split: if_splits)
  show ?thesis
    using scn_step_mono [OF i assms(2)] scn_step_flags [OF assms(2)] scn_closed_step [OF _ assms(2)] c d
    by (auto simp: exec_ok_def)
qed

lemma hp_step_closed_flags:
  assumes "hp_step wt s e = Some (t, r)"
  shows "(wf_closed s \<longrightarrow> t = s) \<and> load_complete_signal t = load_complete_signal s
    \<and> load_complete_update t = load_complete_update s"
  using assms
  by (cases e; cases "pc s")
     (auto simp: hp_nf hp_after_poll_def wf_defs split: if_splits pyval.splits option.splits)

lemma hp_exec_ok:
  assumes "reach (hp_step wt) (hp_start p) s" and "hp_step wt s e = Some (t, r)"
  shows "exec_ok s t"
proof -
  have i: "hp_inv wt p s" by (rule hp_reach_inv [OF assms(1)])
  then have "hp_inv wt p t" using assms(2) by (rule hp_step_inv)
  then have c: "progress t \<in> checkpoints"
    and d: "\<forall>m. terminal_of (outcome t) = Some (TSuccess m) \<longrightarrow> progress t = 100"
    by (auto simp: hp_inv_def hp_stage_def elim!: terminal_of.elims split: if_splits)
  show ?thesis
    using hp_step_mono [OF i assms(2)] hp_step_closed_flags [OF assms(2)] c d
    by (auto simp: exec_ok_def)
qed

lemma nr_step_closed_flags:
  assumes "nr_step s e = Some (t, r)"
  shows "(wf_closed s \<longrightarrow> t = s) \<and> load_complete_signal t = load_complete_signal s
    \<and> load_complete_update t = load_complete_update s"
  using assms
  by (cases e; cases "pc s")
     (auto simp: nr_nf nr_after_poll_def wf_defs split: if_splits pyval.splits option.splits)

lemma nr_step_mono:
  assumes "nr_inv p s" and "nr_step s e = Some (t, r)"
  shows "progress s \<le> progress t"
  using assms
  by (cases e; cases "pc s")
     (auto simp: nr_inv_def nr_nf nr_after_poll_def wf_defs split: if_splits pyval.splits)

lemma nr_exec_ok:
  assumes "reach nr_step (nr_start p) s" and "nr_step s e = Some (t, r)"
  shows "exec_ok s t"
proof -
  have i: "nr_inv p s" by (rule nr_reach_inv [OF assms(1)])
  then have "nr_inv p t" using assms(2) by (rule nr_step_inv)
  then have c: "progress t \<in> checkpoints"
    and d: "\<forall>m. terminal_of (outcome t) = Some (TSuccess m) \<longrightarrow> progress t = 100"
    by (auto simp: nr_inv_def elim!: terminal_of.elims split: if_splits)
  show ?thesis
    using nr_step_mono [OF i assms(2)] nr_step_closed_flags [OF assms(2)] c d
    by (auto simp: exec_ok_def)
qed

lemma exec_view_starts:
  "exec_view (scn_start p) = exec_init" "exec_view (hp_start p) = exec_init"
  "exec_view (nr_start p) = exec_init"
  by (simp_all add: exec_view_def exec_init_def scn_start_nf hp_start_nf nr_start_nf
        scn_init_def hp_init_def nr_init_def)

lemma exec_step_follows:
  assumes "exec_step x op = Some (y, u)"
  shows "x_progress x \<le> x_progress y \<and> (x_signal x \<longrightarrow> x_signal y)
    \<and> (x_update x \<longrightarrow> x_update y) \<and> x_result x = None"
  using assms by (cases op) (auto split: if_splits)

lemma exec_reach_follows: "reach exec_step x y \<Longrightarrow> exec_follows x y"
proof (induction rule: reach.induct)
  case reach_start
  show ?case by (simp add: exec_follows_def reach.reach_start)
next
  case (reach_step y op z u)
  from exec_step_follows [OF reach_step.hyps(2)] reach_step.IH reach_step.hyps
  show ?case by (auto simp: exec_follows_def intro: reach.reach_step)
qed

lemma class_runs_refine:
  assumes "reach step s0 s" and "reach step s s'"
    and "\<And>s e t r. reach step s0 s \<Longrightarrow> step s e = Some (t, r) \<Longrightarrow> exec_ok s t"
  shows "exec_follows (exec_view s) (exec_view s')"
proof -
  have "reach exec_step (exec_view s) (exec_view s')"
    using assms(1,2)
    by (rule reach_monotone [where R = "\<lambda>a b. reach exec_step (exec_view a) (exec_view b)"])
       (auto intro: exec_ok_reach assms(3) reach.reach_start reach_trans)
  then show ?thesis by (rule exec_reach_follows)
qed

text \<open>C27: All three workflow classes refine the specification of the execution state.
  Each starts in the initial abstract state (progress 0, no confirmation, no result).
  Along every run from a reachable state, the view of any later state follows from the
  view of the earlier one by specification steps.  So progress only moves up through the
  checkpoint values, the confirmation flags are only ever set, a success is reported only
  at progress 100, and once a result is set the view never changes again.\<close>

theorem classes_refine_execution_state:
  "exec_view (scn_start p) = exec_init \<and> exec_view (hp_start p) = exec_init
   \<and> exec_view (nr_start p) = exec_init
   \<and> (reach (scn_step wt) (scn_start p) s \<and> reach (scn_step wt) s s'
        \<longrightarrow> exec_follows (exec_view s) (exec_view s'))
   \<and> (reach (hp_step wt) (hp_start p) t \<and> reach (hp_step wt) t t'
        \<longrightarrow> exec_follows (exec_view t) (exec_view t'))
   \<and> (reach nr_step (nr_start p) u \<and> reach nr_step u u'
        \<longrightarrow> exec_follows (exec_view u) (exec_view u'))"
  unfolding exec_view_starts
  by (blast intro: class_runs_refine scn_exec_ok hp_exec_ok nr_exec_ok)

subsection \<open>Witnesses\<close>

theorem classes_refine_execution_state_witness:
  "\<exists>s. run_events (scn_step VISIBILITY) (scn_start demo_params)
          (scn_happy_events VISIBILITY ''worker-1'') = Some s
     \<and> x_result (exec_view s) = Some (TSuccess ''Successfully processed: orders.csv!'')
     \<and> exec_follows (exec_view (scn_start demo_params)) (exec_view s)
     \<and> exec_follows (exec_view (hp_start demo_params)) (exec_view (hp_start demo_params))
     \<and> exec_follows (exec_view (nr_start demo_params)) (exec_view (nr_start demo_params))"
proof -
  have "\<exists>s. run_events (scn_step VISIBILITY) (scn_start demo_params)
          (scn_happy_events VISIBILITY ''worker-1'') = Some s
      \<and> outcome s = Returned ''Successfully processed: orders.csv!''"
    by (simp add: scn_happy_events_def scn_start_nf scn_init_def scn_nf scn_tag_def
        scn_message_def demo_params_def wf_defs)
  then obtain s where r: "run_events (scn_step VISIBILITY) (scn_start demo_params)
          (scn_happy_events VISIBILITY ''worker-1'') = Some s"
    and o: "outcome s = Returned ''Successfully processed: orders.csv!''" by blast
  from classes_refine_execution_state [of demo_params VISIBILITY "scn_start demo_params" s
      "hp_start demo_params" "hp_start demo_params" "nr_start demo_params" "nr_start demo_params"]
    reach_run_events [OF r]
  have "exec_follows (exec_view (scn_start demo_params)) (exec_view s)
      \<and> exec_follows (exec_view (hp_start demo_params)) (exec_view (hp_start demo_params))
      \<and> exec_follows (exec_view (nr_start demo_params)) (exec_view (nr_start demo_params))"
    by (simp add: reach.reach_start exec_view_starts)
  with r o show ?thesis by (simp add: exec_view_def)
qed

end
