(* ===== verification/Spec2Isabelle.thy ===== *)
theory Spec2Isabelle
  imports Variant_Equivalence Await_Points Payload_Codec Workflow_Interleavings Execution_Spec
begin

text \<open>
  \<^bold>\<open>A verification development of the temporal-data-pipeline-demo workflows.\<close>

  \<^bold>\<open>The program.\<close>  Three Temporal workflow classes drive one data pipeline
  (validate, extract, transform, load, poll) over a \<open>DataPipelineParams\<close> input:
  \<^item> \<open>src/DataPipelineWorkflowScenarios.py\<close>, class \<open>DataPipelineWorkflowScenarios\<close>, a
    dynamic workflow whose behaviour is selected by the workflow type it was started
    under (the six constants \<open>BUG\<close>, \<open>FAILURE\<close>, \<open>SIGNAL\<close>, \<open>UPDATE\<close>,
    \<open>VISIBILITY\<close>, \<open>IDEMPOTENCY\<close>), with a signal handler, an update handler and a
    progress query;
  \<^item> \<open>src/DataPipelineWorkflowHappyPath.py\<close>, class \<open>DataPipelineWorkflowHappyPath\<close>;
  \<^item> \<open>src/DataPipelineWorkflowNonRecoverableFailure.py\<close>, class
    \<open>DataPipelineWorkflowNonRecoverableFailure\<close>.
  Each \<open>run\<close> coroutine discovers a worker task queue
  (\<open>get_available_task_queue\<close>), sleeps 2 seconds, runs the stages, and sets
  \<open>_progress\<close> to 10, 20, 40, 60, 80, 100 between them.  Stage calls after
  validate are pinned to the discovered queue.  The poll activity runs under
  \<open>RetryPolicy(initial_interval=2s, backoff_coefficient=1)\<close>; the Temporal service runs
  its attempts.

  \<^bold>\<open>The model.\<close>  A workflow instance is a deterministic step function
  (\<^typ>\<open>(wf_state, event, reply) step_fn\<close>, theory \<open>Pipeline_Prelude\<close>).  The state
  record \<open>wf_state\<close> (theory \<open>Temporal_Runtime\<close>) holds:
  \<^item> \<open>pc\<close>, the await point at which the coroutine is suspended;
  \<^item> the instance fields \<open>_progress\<close>, \<open>load_complete_signal\<close> and
    \<open>load_complete_update\<close>;
  \<^item> the local variables \<open>input\<close> and \<open>unique_worker_task_queue\<close>;
  \<^item> the history of commands issued to the runtime, and the outcome.
  An event is one job the runtime delivers: an activity result, an activity failure, a
  timer, a signal, an update or a query.  Each \<open>run\<close> is cut at its awaits.  The code
  between two awaits is one definition that takes the awaited value and returns the
  state at the next await (\<open>scn_after_validate\<close>, \<open>hp_after_load\<close>, ...), so every
  assignment, branch and early return of the source is a line of a definition.  The
  dispatch functions \<open>scn_step\<close>, \<open>hp_step\<close> and \<open>nr_step\<close> deliver events; a query or
  update to a class without that handler is rejected.  The SDK calls
  (\<open>execute_activity\<close>, \<open>sleep\<close>, \<open>wait_condition\<close>, \<open>upsert_search_attributes\<close>, return
  and raise) are modelled at the interface in \<open>Temporal_Runtime\<close> from the spec, since
  the runtime is not part of the repository.  Runs are \<open>run_events\<close> over event lists;
  reachable states are the inductive \<open>reach\<close>.

  \<^bold>\<open>Theories.\<close>
  \<^item> \<open>Pipeline_Prelude\<close>: runs, reachability, and the rules every component uses: an
    invariant rule, a monotonicity rule and a lock-step simulation rule.
  \<^item> \<open>Retry_Policy\<close>: the RetryPolicy record, the default and poll policies, the backoff
    interval, and the service's attempt loop \<open>retry_loop\<close>.  The loop is a
    \<^theory_text>\<open>partial_function (option)\<close>: a loop that retries forever is the value
    \<open>None\<close>.  An attempt that exceeds its start-to-close or heartbeat budget is a
    retryable failure of the attempt sequence.
  \<^item> \<open>Temporal_Runtime\<close>: the state, events, commands and SDK calls.
  \<^item> \<open>Pipeline_Spec\<close>: the checkpoint values and the activity calls with the code's
    budgets (\<open>discovery_call\<close> 10 s; \<open>stage_call\<close> 300 s, heartbeat 20 s;
    \<open>poll_call\<close> 3000 s, heartbeat 20 s, poll policy).
  \<^item> \<open>Workflow_Scenarios\<close>: the scenarios class (\<open>scn_*\<close>), its invariant
    \<open>scn_inv\<close>, and claims C1 to C13.  The invariant ties the await point to progress,
    calls (a prefix of the variant's plan \<open>scn_plan\<close>), search-attribute tags, input,
    task queue and outcome.
  \<^item> \<open>Workflow_Happy_Path\<close>: the happy-path class (\<open>hp_*\<close>), its invariant \<open>hp_inv\<close>,
    and claims C14 to C17.
  \<^item> \<open>Workflow_Non_Recoverable\<close>: the failure class (\<open>nr_*\<close>), its invariant
    \<open>nr_inv\<close>, and claim C18.
  \<^item> \<open>Variant_Equivalence\<close>: the classes compared by lock-step simulation.  C19: the
    scenarios class at workflow type \<open>FAILURE\<close> against the failure class
    (\<open>failure_sim\<close>).  C23: the scenarios class at a workflow type that selects no
    scenario against the happy-path class (\<open>happy_sim\<close>); they differ only where
    validation rejects.
  \<^item> \<open>Await_Points\<close>: a running state of each class waits for the activity it
    scheduled last (\<open>state_typed\<close>), the link the stage-failure claims use.
  \<^item> \<open>Payload_Codec\<close>: the dynamic class's decoding of its raw argument (lines 29--30,
    \<open>scn_start_payload\<close>) over a model of the SDK's JSON converter (Python's ASCII
    string escaping and strict string scanner).  C24 is the round trip from the
    client's encoding to the typed start.
  \<^item> \<open>Workflow_Interleavings\<close>: orderings of external events.  C25: a confirmation
    delivered at any point up to the gate completes the run, with no timer when early.
    C26: an update does not open the signal gate, although it is acknowledged.
  \<^item> \<open>Execution_Spec\<close>: the spec's ExecutionState and TerminalResult as an abstract
    machine (\<open>exec_step\<close>).  C27: every class refines it through \<open>exec_view\<close>.
    Between any two states of a run the views are related by specification steps
    (\<open>exec_follows\<close>), a forward simulation in which each concrete step is matched by
    up to four abstract steps.
  \<^item> This theory: the properties that span the sequencer and the retry controller.
    C22 connects the poll stage of the sequencer with the retry loop.
    C28 follows a stage failure through the retry loop into the run's outcome, at every
    await point.  C29 does the same for the other two classes, through the shared lemma
    \<open>stage_failure_okI\<close>.  C30 gives the exact waiting time of a stage call under the
    default backoff (\<open>effective_retry_policy\<close>, which also governs the discovery
    call).
  The retry claims C20 and C21 are in \<open>Retry_Policy\<close>.

  \<^bold>\<open>What the lemmas show.\<close>
  \<^item> Every class keeps its invariant on every reachable state.
  \<^item> Progress is always a checkpoint value and never decreases.
  \<^item> A returned run issued exactly its variant's activity plan, with the code's
    budgets and worker affinity, and returned the success string at progress 100.
  \<^item> The failure paths end as the code makes them end.  Validation rejection raises
    at progress 10 or, in the happy-path class, returns \<open>invalidated\<close>.  The bug
    scenario never gets past progress 40 or schedules load or poll.  The gates fail on
    their 60 second timer.
  \<^item> The signal and update handlers open their own gate and no other.
  \<^item> Retries: the poll policy retries every 2 seconds and never gives up.  The loop
    returns exactly when some attempt is not a retryable failure, and the first
    success after k - n failures arrives after 2 (k - n) seconds.  The same holds for
    every policy without an attempt cap, the default one included, which governs the
    discovery call and the stage calls.
  \<^item> The classes agree where the code agrees.
  \<^item> Every class meets the spec's execution-state lifecycle, and stage failures
    reach the run only as non-retryable errors.
  \<^item> The input payload decodes back to the client's input.  Confirmations are
    accepted in any order relative to the pipeline.
  Where the code and the spec disagree, the theorem states what the code does, and
  the manifest records the divergence.

  \<^bold>\<open>Inputs and fuel.\<close>  No bound or fuel is needed: every workflow run has at most
  eight awaits, and the one unbounded loop, the retry loop, is a partial function
  whose non-termination is proved as such.  The witnesses evaluate the definitions on
  the input \<open>demo_params\<close> (\<open>orders.csv\<close>, validation \<open>green\<close>) and the worker
  queue \<open>worker-1\<close>.  For the retry loop, \<open>demo_attempts\<close> fails twice and then
  succeeds.

  \<^bold>\<open>Not modelled.\<close>  Every statement of the three workflow classes under
  \<open>src/\<close> that changes state is a line of a definition; the unmapped lines are
  imports, decorators, logging and comments.  \<open>activities.py\<close> and
  \<open>dataobjects.py\<close> are not among the sources, so nothing more of the program can be
  modelled faithfully.  Activity results are inputs of the model, and \<open>DataPipelineParams\<close> is a
  record of the two fields the workflows use.  The worker bootstrap, the client
  starters and logging are I/O without effect on workflow state.  The Temporal
  service's persistence and replay are out of scope, except that a failed workflow
  task leaves the state unchanged.  The JSON converter is modelled only as far as the
  dynamic class's input needs it: string members, no white space, Latin-1
  characters.
\<close>

subsection \<open>The retry controller and the sequencer\<close>

text \<open>The event an activity's retry loop hands back to the workflow.\<close>

fun activity_event :: "activity_outcome \<Rightarrow> event" where
  "activity_event (ActCompleted v) = ActivityCompleted (PyStr v)"
| "activity_event (ActFailed e) = ActivityFailed e"

text \<open>What C28 shows of a stage a running instance waits on, as one predicate: the last
  call is that stage's; retryable failures of all attempts make the retry loop diverge;
  a failure handed back is a non-retryable error of an attempt, and delivering it fails
  the run with an ActivityError naming the stage at unchanged progress.\<close>

definition stage_failure_ok ::
  "(wf_state, event, reply) step_fn \<Rightarrow> wf_state \<Rightarrow> activity \<Rightarrow> (nat \<Rightarrow> attempt_result) \<Rightarrow> bool" where
  "stage_failure_ok step s a att \<longleftrightarrow>
     (\<exists>c. last (activity_calls (commands s)) = c \<and> call_activity c = a
      \<and> ((\<forall>i. 1 \<le> i \<longrightarrow> (\<exists>e. att i = AttemptFailed e))
           \<longrightarrow> retry_loop (effective_retry_policy c) att 1 0 = None)
      \<and> (\<forall>e k w. retry_loop (effective_retry_policy c) att 1 0 = Some (ActFailed e, k, w)
           \<longrightarrow> att k = AttemptNonRetryable e
             \<and> (\<exists>t. step s (activity_event (ActFailed e)) = Some (t, NoReply)
                  \<and> outcome t = Failed (ActivityError a e) \<and> progress t = progress s
                  \<and> wf_closed t)))"

text \<open>C22: The retry controller and the sequencer agree at the poll stage: while a
  scenarios run waits for poll, the last call it issued is the poll call with the constant
  2 second retry policy; if the poll attempts fail retryably until attempt k succeeds, the
  retry loop under that policy returns the success after 2 (k - 1) seconds of waiting, and
  delivering it completes the run with the success string and progress 100.\<close>

theorem poll_retries_complete_run:
  assumes "reach (scn_step wt) (scn_start p) s" and "pc s = AwaitPoll" and "outcome s = Running"
    and "\<And>i. 1 \<le> i \<Longrightarrow> i < k \<Longrightarrow> \<exists>e. att i = AttemptFailed e"
    and "1 \<le> k" and "att k = AttemptSucceeded v"
  shows "\<exists>c t. last (activity_calls (commands s)) = c \<and> call_activity c = Poll
    \<and> call_retry_policy c = Some poll_retry_policy
    \<and> retry_loop poll_retry_policy att 1 0 = Some (ActCompleted v, k, 2 * (k - 1))
    \<and> scn_step wt s (activity_event (ActCompleted v)) = Some (t, NoReply)
    \<and> outcome t = Returned (''Successfully processed: '' @ input_filename p @ ''!'')
    \<and> progress t = 100"
proof -
  have inv: "scn_inv wt p s" by (rule scn_reach_inv [OF assms(1)])
  then have "last (activity_calls (commands s)) =
      poll_call [ArgParams (scn_effective_input wt p), ArgStr wt] (task_queue s)"
    using assms(2) by (auto simp: scn_inv_def scn_plan_def)
  moreover have "retry_loop poll_retry_policy att 1 0 = Some (ActCompleted v, k, 0 + 2 * (k - 1))"
    by (rule poll_retry_loop_value) (use assms(4-6) in auto)
  moreover have "\<exists>t. scn_step wt s (ActivityCompleted (PyStr v)) = Some (t, NoReply)
      \<and> outcome t = Returned (''Successfully processed: '' @ input_filename p @ ''!'')
      \<and> progress t = 100"
    using inv assms(2,3) by (auto simp: scn_inv_def scn_finish_nf scn_message_def)
  ultimately show ?thesis by (auto simp: poll_call_def)
qed

theorem poll_retries_complete_run_witness:
  "\<exists>s (c :: act_call) t. reach (scn_step VISIBILITY) (scn_start demo_params) s \<and> pc s = AwaitPoll
     \<and> call_retry_policy c = Some poll_retry_policy
     \<and> retry_loop poll_retry_policy demo_attempts 1 0 = Some (ActCompleted ''done'', 3, 2 * (3 - 1))
     \<and> scn_step VISIBILITY s (activity_event (ActCompleted ''done'')) = Some (t, NoReply)
     \<and> outcome t = Returned (''Successfully processed: '' @ input_filename demo_params @ ''!'')"
proof -
  have "\<exists>s. run_events (scn_step VISIBILITY) (scn_start demo_params)
      (take 6 (scn_happy_events VISIBILITY ''worker-1'')) = Some s
    \<and> pc s = AwaitPoll \<and> outcome s = Running"
    by (simp add: scn_happy_events_def scn_start_nf scn_init_def scn_nf wf_defs)
  then obtain s where s: "reach (scn_step VISIBILITY) (scn_start demo_params) s"
    "pc s = AwaitPoll" "outcome s = Running"
    by (blast intro: reach_run_events)
  have "\<exists>c t. last (activity_calls (commands s)) = c \<and> call_activity c = Poll
      \<and> call_retry_policy c = Some poll_retry_policy
      \<and> retry_loop poll_retry_policy demo_attempts 1 0 = Some (ActCompleted ''done'', 3, 2 * (3 - 1))
      \<and> scn_step VISIBILITY s (activity_event (ActCompleted ''done'')) = Some (t, NoReply)
      \<and> outcome t = Returned (''Successfully processed: '' @ input_filename demo_params @ ''!'')
      \<and> progress t = 100"
    by (rule poll_retries_complete_run [where att = demo_attempts and k = 3])
       (simp_all add: s demo_attempts_def)
  then obtain c :: act_call and t where c: "call_retry_policy c = Some poll_retry_policy"
    and l: "retry_loop poll_retry_policy demo_attempts 1 0 = Some (ActCompleted ''done'', 3, 2 * (3 - 1))"
    and st: "scn_step VISIBILITY s (activity_event (ActCompleted ''done'')) = Some (t, NoReply)"
    and o: "outcome t = Returned (''Successfully processed: '' @ input_filename demo_params @ ''!'')"
    by (elim exE conjE) (rule that; assumption)
  show ?thesis
    using s c l st o by (intro exI [of _ s] exI [of _ c] exI [of _ t] conjI)
qed

subsection \<open>Stage failures through the retry controller\<close>

lemma uncapped_call:
  "c = discovery_call \<or> (\<exists>a p tq. c = stage_call a p tq) \<or> (\<exists>args tq. c = poll_call args tq)
   \<Longrightarrow> maximum_attempts (effective_retry_policy c) = 0"
  by (auto simp: stage_call_def poll_call_def discovery_call_def effective_retry_policy_def
      default_retry_policy_def)

lemma stage_failure_through_retry:
  assumes m: "maximum_attempts (effective_retry_policy c) = 0"
    and step: "\<And>e. step s (ActivityFailed e) = Some (wf_raise (ActivityError a e) s, NoReply)"
  shows "((\<forall>i. 1 \<le> i \<longrightarrow> (\<exists>e. att i = AttemptFailed e))
           \<longrightarrow> retry_loop (effective_retry_policy c) att 1 0 = None)
    \<and> (retry_loop (effective_retry_policy c) att 1 0 = Some (ActFailed e, k, w)
         \<longrightarrow> att k = AttemptNonRetryable e
           \<and> (\<exists>t. step s (ActivityFailed e) = Some (t, NoReply)
                \<and> outcome t = Failed (ActivityError a e) \<and> progress t = progress s \<and> wf_closed t))"
  using retry_loop_uncapped_none_from [OF m, of 1 att 0] retry_loop_uncapped_failure [OF m, of att 1 0 e k w]
    step
  by (auto simp: wf_defs)

lemma last_call_uncapped:
  assumes "set (activity_calls (commands s)) \<subseteq> set plan" and "activity_calls (commands s) \<noteq> []"
    and "\<And>c. c \<in> set plan \<Longrightarrow>
      c = discovery_call \<or> (\<exists>a p tq. c = stage_call a p tq) \<or> (\<exists>args tq. c = poll_call args tq)"
  shows "maximum_attempts (effective_retry_policy (last (activity_calls (commands s)))) = 0"
  using assms by (intro uncapped_call) (meson last_in_set subsetD)

lemma stage_failure_okI:
  assumes "outcome s = Running" and "pending_activity (pc s) = Some a"
    and "state_typed s"
    and "maximum_attempts (effective_retry_policy (last (activity_calls (commands s)))) = 0"
    and "\<And>e. step s (ActivityFailed e) = Some (wf_raise (ActivityError a e) s, NoReply)"
  shows "stage_failure_ok step s a att"
proof -
  from assms(1-3) have "call_activity (last (activity_calls (commands s))) = a"
    by (auto simp: state_typed_def)
  with stage_failure_through_retry [where step = step and s = s and a = a, OF assms(4) assms(5)]
  show ?thesis
    unfolding stage_failure_ok_def by auto
qed

lemma scn_stage_failure_ok:
  assumes "reach (scn_step wt) (scn_start p) s" and "outcome s = Running"
    and "pending_activity (pc s) = Some a"
  shows "stage_failure_ok (scn_step wt) s a att"
proof -
  have i: "scn_inv wt p s" by (rule scn_reach_inv [OF assms(1)])
  have ty: "state_typed s" by (rule scn_inv_typed [OF i])
  with assms(2,3) have ne: "activity_calls (commands s) \<noteq> []" by (auto simp: state_typed_def)
  have "set (activity_calls (commands s)) \<subseteq> set (scn_plan wt (scn_effective_input wt p) (task_queue s))"
    using i by (auto simp: scn_inv_def dest: in_set_takeD)
  then have "maximum_attempts (effective_retry_policy (last (activity_calls (commands s)))) = 0"
    by (rule last_call_uncapped [OF _ ne]) (auto simp: scn_plan_def split: if_splits)
  with assms(2,3) ty show ?thesis by (intro stage_failure_okI) simp_all
qed

lemma hp_stage_failure_ok:
  assumes "reach (hp_step wt) (hp_start p) s" and "outcome s = Running"
    and "pending_activity (pc s) = Some a"
  shows "stage_failure_ok (hp_step wt) s a att"
proof -
  have i: "hp_inv wt p s" by (rule hp_reach_inv [OF assms(1)])
  have ty: "state_typed s" by (rule hp_inv_typed [OF i])
  with assms(2,3) have ne: "activity_calls (commands s) \<noteq> []" by (auto simp: state_typed_def)
  have "set (activity_calls (commands s)) \<subseteq> set (hp_plan wt p (task_queue s))"
    using i by (auto simp: hp_inv_def dest: in_set_takeD)
  then have "maximum_attempts (effective_retry_policy (last (activity_calls (commands s)))) = 0"
    by (rule last_call_uncapped [OF _ ne]) (auto simp: hp_plan_def)
  with assms(2,3) ty show ?thesis by (intro stage_failure_okI) simp_all
qed

lemma nr_stage_failure_ok:
  assumes "reach nr_step (nr_start p) s" and "outcome s = Running"
    and "pending_activity (pc s) = Some a"
  shows "stage_failure_ok nr_step s a att"
proof -
  have i: "nr_inv p s" by (rule nr_reach_inv [OF assms(1)])
  have ty: "state_typed s" by (rule nr_inv_typed [OF i])
  with assms(2,3) have ne: "activity_calls (commands s) \<noteq> []" by (auto simp: state_typed_def)
  have "set (activity_calls (commands s)) \<subseteq> set (nr_plan (p\<lparr>validation := ''blue''\<rparr>) (task_queue s))"
    using i by (auto simp: nr_inv_def dest: in_set_takeD)
  then have "maximum_attempts (effective_retry_policy (last (activity_calls (commands s)))) = 0"
    by (rule last_call_uncapped [OF _ ne]) (auto simp: nr_plan_def)
  with assms(2,3) ty show ?thesis by (intro stage_failure_okI) simp_all
qed

text \<open>C28: At every stage a running scenarios instance waits on (discovery, validate,
  extract, transform, load, the second load, poll) the last call it issued is that
  stage's, and the service runs it under a policy without an attempt cap.  If every
  attempt fails retryably the loop never returns and the run waits at that stage.  A
  failure reaches the workflow only as a non-retryable error of some attempt, and
  delivering it fails the run with an ActivityError naming that stage and that error.
  Progress stays at the last checkpoint, and the instance is closed.\<close>

theorem scn_stage_failure_surfaces:
  assumes "reach (scn_step wt) (scn_start p) s" and "outcome s = Running"
    and "pending_activity (pc s) = Some a"
  shows "\<exists>c. last (activity_calls (commands s)) = c \<and> call_activity c = a
    \<and> ((\<forall>i. 1 \<le> i \<longrightarrow> (\<exists>e. att i = AttemptFailed e))
         \<longrightarrow> retry_loop (effective_retry_policy c) att 1 0 = None)
    \<and> (\<forall>e k w. retry_loop (effective_retry_policy c) att 1 0 = Some (ActFailed e, k, w)
         \<longrightarrow> att k = AttemptNonRetryable e
           \<and> (\<exists>t. scn_step wt s (activity_event (ActFailed e)) = Some (t, NoReply)
                \<and> outcome t = Failed (ActivityError a e) \<and> progress t = progress s
                \<and> wf_closed t))"
  using scn_stage_failure_ok [OF assms, of att] by (simp add: stage_failure_ok_def)

theorem scn_stage_failure_surfaces_witness:
  "\<exists>s c. reach (scn_step VISIBILITY) (scn_start demo_params) s \<and> pc s = AwaitExtract
     \<and> last (activity_calls (commands s)) = c \<and> call_activity c = Extract
     \<and> retry_loop (effective_retry_policy c) (\<lambda>i. AttemptFailed ''StartToClose timeout'') 1 0 = None"
proof -
  have "\<exists>s. run_events (scn_step VISIBILITY) (scn_start demo_params)
      (take 3 (scn_happy_events VISIBILITY ''worker-1'')) = Some s
    \<and> pc s = AwaitExtract \<and> outcome s = Running"
    by (simp add: scn_happy_events_def scn_start_nf scn_init_def scn_nf wf_defs)
  then obtain s where r: "reach (scn_step VISIBILITY) (scn_start demo_params) s"
    and k: "pc s = AwaitExtract" and o: "outcome s = Running"
    by (blast intro: reach_run_events)
  have "pending_activity (pc s) = Some Extract" using k by simp
  from scn_stage_failure_surfaces [OF r o this, of "\<lambda>i. AttemptFailed ''StartToClose timeout''"]
  obtain c :: act_call where "last (activity_calls (commands s)) = c" "call_activity c = Extract"
    "retry_loop (effective_retry_policy c) (\<lambda>i. AttemptFailed ''StartToClose timeout'') 1 0 = None"
    by auto
  with r k show ?thesis by blast
qed

subsection \<open>The other classes' stage failures, and the default backoff\<close>

text \<open>C29: The happy-path class and the non-recoverable-failure class handle stage failures
  the same way as the scenarios class (C28).  At every stage a running instance waits
  on, the last call is that stage's and runs under an uncapped policy.  Retryable
  failures never reach the run.  A non-retryable error of an attempt fails the run with
  an ActivityError naming the stage, at the last checkpoint.\<close>

theorem classes_stage_failure_surfaces:
  "(reach (hp_step wt) (hp_start p) s \<and> outcome s = Running \<and> pending_activity (pc s) = Some a
      \<longrightarrow> stage_failure_ok (hp_step wt) s a att)
   \<and> (reach nr_step (nr_start p) t \<and> outcome t = Running \<and> pending_activity (pc t) = Some b
      \<longrightarrow> stage_failure_ok nr_step t b att)"
  using hp_stage_failure_ok nr_stage_failure_ok by blast

lemma default_wait_closed_form:
  "1 \<le> k \<Longrightarrow> (\<Sum>i = 1..<k. retry_interval default_retry_policy i)
     = (if k \<le> 8 then 2 ^ (k - 1) - 1 else 127 + 100 * (k - 8))"
proof (induction k rule: nat_induct_at_least)
  case base
  then show ?case by simp
next
  case (Suc k)
  have i: "retry_interval default_retry_policy k = min (2 ^ (k - 1)) 100"
    by (simp add: retry_interval_def interval_cap_def default_retry_policy_def)
  have s: "(\<Sum>i = 1..<Suc k. retry_interval default_retry_policy i)
      = (\<Sum>i = 1..<k. retry_interval default_retry_policy i) + min (2 ^ (k - 1)) 100"
    using Suc.hyps by (simp add: sum.atLeastLessThan_Suc i)
  consider "k \<le> 7" | "k = 8" | "8 < k" by linarith
  then show ?case
  proof cases
    case 1
    then have "(2::nat) ^ (k - 1) \<le> 2 ^ 6" by (intro power_increasing) simp_all
    then have "min (2 ^ (k - 1)) 100 = (2::nat) ^ (k - 1)" by simp
    moreover have "(2::nat) ^ k = 2 * 2 ^ (k - 1)" using Suc.hyps by (cases k) simp_all
    moreover have "(1::nat) \<le> 2 ^ (k - 1)" by simp
    ultimately show ?thesis using 1 Suc.IH s by (simp add: mult_2)
  next
    case 2
    then show ?thesis using Suc.IH s by simp
  next
    case 3
    then have "(2::nat) ^ 7 \<le> 2 ^ (k - 1)" by (intro power_increasing) simp_all
    then have "min (2 ^ (k - 1)) 100 = (100::nat)" by simp
    then show ?thesis using 3 Suc.IH s by simp
  qed
qed

text \<open>C30: The stage calls pass no retry policy, so the service's default backoff
  governs them (the discovery call likewise): the waits double from 1 second and are
  capped at 100 seconds.  If attempts 1 to k-1 of a stage fail retryably and attempt k
  succeeds, the success reaches the run after exactly 2^(k-1) - 1 seconds of waiting when
  k is at most 8, and 127 + 100 (k - 8) seconds beyond, which is never more than
  100 seconds per failed attempt.\<close>

theorem stage_retry_wait:
  assumes "\<And>i. 1 \<le> i \<Longrightarrow> i < k \<Longrightarrow> \<exists>e. att i = AttemptFailed e"
    and "1 \<le> k" and "att k = AttemptSucceeded v"
  shows "retry_loop (effective_retry_policy (stage_call a p tq)) att 1 0
      = Some (ActCompleted v, k, if k \<le> 8 then 2 ^ (k - 1) - 1 else 127 + 100 * (k - 8))
    \<and> (if k \<le> 8 then 2 ^ (k - 1) - 1 else 127 + 100 * (k - 8)) \<le> 100 * (k - 1)"
proof
  have d: "effective_retry_policy (stage_call a p tq) = default_retry_policy"
    by (simp add: effective_retry_policy_def stage_call_def)
  have m: "maximum_attempts default_retry_policy = 0" by (simp add: default_retry_policy_def)
  have "retry_loop default_retry_policy att 1 0
      = retry_loop default_retry_policy att (1 + (k - 1))
          (0 + (\<Sum>i = 1..<1 + (k - 1). retry_interval default_retry_policy i))"
    by (rule retry_loop_skip_failures [OF _ m]) (use assms(1,2) in auto)
  also have "\<dots> = retry_loop default_retry_policy att k
      (if k \<le> 8 then 2 ^ (k - 1) - 1 else 127 + 100 * (k - 8))"
    using assms(2) default_wait_closed_form [OF assms(2)] by simp
  also have "\<dots> = Some (ActCompleted v, k, if k \<le> 8 then 2 ^ (k - 1) - 1 else 127 + 100 * (k - 8))"
    by (subst retry_loop.simps) (simp add: assms(3))
  finally show "retry_loop (effective_retry_policy (stage_call a p tq)) att 1 0
      = Some (ActCompleted v, k, if k \<le> 8 then 2 ^ (k - 1) - 1 else 127 + 100 * (k - 8))"
    by (simp add: d)
next
  show "(if k \<le> 8 then 2 ^ (k - 1) - 1 else 127 + 100 * (k - 8)) \<le> 100 * (k - 1)"
  proof (cases "k \<le> 8")
    case True
    with assms(2) have "k - 1 \<in> {0, 1, 2, 3, 4, 5, 6, 7}" by auto
    with True show ?thesis by auto
  next
    case False
    then show ?thesis by simp
  qed
qed

subsection \<open>Witnesses of the last two groups\<close>

theorem classes_stage_failure_surfaces_witness:
  "stage_failure_ok (hp_step ''DataPipelineWorkflowHappyPath'') (hp_start demo_params)
     Get_available_task_queue (\<lambda>i. AttemptFailed ''StartToClose timeout'')
   \<and> stage_failure_ok nr_step (nr_start demo_params)
     Get_available_task_queue (\<lambda>i. AttemptFailed ''StartToClose timeout'')"
  using classes_stage_failure_surfaces [of "''DataPipelineWorkflowHappyPath''" demo_params
      "hp_start demo_params" Get_available_task_queue "\<lambda>i. AttemptFailed ''StartToClose timeout''"
      "nr_start demo_params" Get_available_task_queue]
  by (simp add: reach.reach_start hp_start_nf nr_start_nf hp_init_def nr_init_def)

theorem stage_retry_wait_witness:
  "retry_loop (effective_retry_policy (stage_call Extract demo_params (Some ''worker-1'')))
     (\<lambda>i. if i < 10 then AttemptFailed ''StartToClose timeout'' else AttemptSucceeded ''extracted'')
     1 0 = Some (ActCompleted ''extracted'', 10, 327)"
proof -
  have "retry_loop (effective_retry_policy (stage_call Extract demo_params (Some ''worker-1'')))
     (\<lambda>i. if i < 10 then AttemptFailed ''StartToClose timeout'' else AttemptSucceeded ''extracted'')
     1 0 = Some (ActCompleted ''extracted'', 10, if (10::nat) \<le> 8 then 2 ^ (10 - 1) - 1
       else 127 + 100 * (10 - 8))
    \<and> (if (10::nat) \<le> 8 then (2::nat) ^ (10 - 1) - 1 else 127 + 100 * (10 - 8))
        \<le> (100::nat) * (10 - 1)"
    by (rule stage_retry_wait) auto
  then show ?thesis by simp
qed

end
